theory Spec2Isabelle
  imports Complex_Main
begin

section \<open>Python text and sequence primitives\<close>

text \<open>
  Python strings are sequences of code points. Text is modelled as \<open>string\<close> with one
  \<open>char\<close> per code point, so the model covers the code points 0 to 255 (Latin-1);
  \<open>length\<close> then counts what Python's \<open>len\<close> counts. The character classes below are
  Python's classes restricted to that range.
\<close>

definition code_in :: "char \<Rightarrow> (nat \<times> nat) list \<Rightarrow> bool" where
  \<comment> \<open>The code point lies in one of the closed ranges.\<close>
  "code_in c rs = list_ex (\<lambda>(lo, hi). lo \<le> of_char c \<and> (of_char c :: nat) \<le> hi) rs"

definition py_lower_char :: "char \<Rightarrow> char" where
  \<comment> \<open>\<open>str.lower\<close> on one code point: A-Z, and the Latin-1 capitals except the
      multiplication sign (215).\<close>
  "py_lower_char c =
     (if code_in c [(65, 90), (192, 214), (216, 222)]
      then char_of ((of_char c :: nat) + 32) else c)"

definition py_lower :: "string \<Rightarrow> string" where
  "py_lower s = map py_lower_char s"

definition py_isspace :: "char \<Rightarrow> bool" where
  \<comment> \<open>Whitespace for \<open>str.strip\<close>, \<open>str.split\<close> and the pattern \<open>\s\<close>.\<close>
  "py_isspace c = code_in c [(9, 13), (28, 32), (133, 133), (160, 160)]"

definition re_word_char :: "char \<Rightarrow> bool" where
  \<comment> \<open>The pattern \<open>\w\<close>: alphanumeric code points and the underscore.\<close>
  "re_word_char c =
     code_in c [(48, 57), (65, 90), (95, 95), (97, 122), (170, 170), (178, 179), (181, 181),
                (185, 186), (188, 190), (192, 214), (216, 246), (248, 255)]"

definition re_digit :: "char \<Rightarrow> bool" where
  \<comment> \<open>The pattern \<open>\d\<close>.\<close>
  "re_digit c = code_in c [(48, 57)]"

definition ascii_alpha :: "char \<Rightarrow> bool" where
  \<comment> \<open>The class \<open>[a-zA-Z]\<close>.\<close>
  "ascii_alpha c = code_in c [(65, 90), (97, 122)]"

definition py_replace_char :: "char \<Rightarrow> char \<Rightarrow> string \<Rightarrow> string" where
  \<comment> \<open>\<open>s.replace(a, b)\<close> for one-character \<open>a\<close> and \<open>b\<close>.\<close>
  "py_replace_char a b s = map (\<lambda>c. if c = a then b else c) s"

definition py_slice_to :: "'a list \<Rightarrow> int \<Rightarrow> 'a list" where
  \<comment> \<open>\<open>xs[:k]\<close>: a negative bound counts from the end.\<close>
  "py_slice_to xs k =
     (if k < 0 then take (nat (int (length xs) + k)) xs else take (nat k) xs)"

definition py_slice :: "'a list \<Rightarrow> nat \<Rightarrow> nat \<Rightarrow> 'a list" where
  \<comment> \<open>\<open>xs[a:b]\<close> for bounds that are not negative.\<close>
  "py_slice xs a b = take (b - a) (drop a xs)"

fun py_startswith :: "string \<Rightarrow> string \<Rightarrow> bool" where
  \<comment> \<open>\<open>s.startswith(p)\<close>\<close>
  "py_startswith s [] = True"
| "py_startswith [] (p # ps) = False"
| "py_startswith (c # cs) (p # ps) = (if c = p then py_startswith cs ps else False)"

fun py_in :: "string \<Rightarrow> string \<Rightarrow> bool" where
  \<comment> \<open>\<open>sub in s\<close>: \<open>sub\<close> occurs in \<open>s\<close> as a contiguous piece.\<close>
  "py_in sub [] = (sub = [])"
| "py_in sub (c # cs) = (if py_startswith (c # cs) sub then True else py_in sub cs)"

function py_count :: "string \<Rightarrow> string \<Rightarrow> nat" where
  \<comment> \<open>\<open>s.count(sub)\<close> for a non-empty \<open>sub\<close>: occurrences that do not overlap, found left
      to right. (For the empty \<open>sub\<close> Python counts \<open>len(s) + 1\<close>.)\<close>
  "py_count [] sub = (if sub = [] then 1 else 0)"
| "py_count (c # cs) sub =
     (if sub = [] then Suc (py_count cs sub)
      else if py_startswith (c # cs) sub
      then Suc (py_count (drop (length sub) (c # cs)) sub)
      else py_count cs sub)"
  by pat_completeness auto
termination
  by (relation "measure (\<lambda>(s, sub). length s)") auto

definition py_strip :: "string \<Rightarrow> string" where
  \<comment> \<open>\<open>s.strip()\<close>: whitespace removed at both ends.\<close>
  "py_strip s = rev (dropWhile py_isspace (rev (dropWhile py_isspace s)))"

definition py_strip_chars :: "string \<Rightarrow> string \<Rightarrow> string" where
  \<comment> \<open>\<open>s.strip(chars)\<close>: the characters of \<open>chars\<close> removed at both ends.\<close>
  "py_strip_chars s chars =
     rev (dropWhile (\<lambda>c. c \<in> set chars) (rev (dropWhile (\<lambda>c. c \<in> set chars) s)))"

function py_split :: "string \<Rightarrow> string list" where
  \<comment> \<open>\<open>s.split()\<close>: the maximal runs of characters that are not whitespace.\<close>
  "py_split s =
     (case dropWhile py_isspace s of
        [] \<Rightarrow> []
      | c # cs \<Rightarrow> takeWhile (\<lambda>x. \<not> py_isspace x) (c # cs) #
                 py_split (dropWhile (\<lambda>x. \<not> py_isspace x) cs))"
  by pat_completeness auto
termination
proof (relation "measure length", goal_cases)
  case 1
  show ?case by simp
next
  case (2 s c cs)
  have "length (dropWhile (\<lambda>x. \<not> py_isspace x) cs) \<le> length cs"
    by (rule length_dropWhile_le)
  also have "length cs < length (dropWhile py_isspace s)"
    using 2 by simp
  also have "\<dots> \<le> length s"
    by (rule length_dropWhile_le)
  finally show ?case by simp
qed

section \<open>Python floats\<close>

text \<open>
  A Python float is an IEEE 754 double. A double is modelled by the rational number it
  denotes, and an arithmetic operation by the exact result rounded to the nearest double,
  ties to the even mantissa (\<open>fl\<close>), which is what the hardware computes. The exponent
  range is not modelled: the numbers below are counts of pieces of a text and scores, far
  from overflow and underflow.
\<close>

fun floor_log2 :: "nat \<Rightarrow> nat" where
  "floor_log2 n = (if n < 2 then 0 else Suc (floor_log2 (n div 2)))"

definition round_half_even :: "rat \<Rightarrow> int" where
  "round_half_even x =
     (let f = \<lfloor>x\<rfloor>; r = x - of_int f
      in if r < 1 / 2 then f
         else if 1 / 2 < r then f + 1
         else if even f then f else f + 1)"

definition binade :: "rat \<Rightarrow> int" where
  \<comment> \<open>For \<open>0 < x\<close>, the exponent \<open>e\<close> with \<open>2 ^ e \<le> x < 2 ^ (e + 1)\<close>.\<close>
  "binade x =
     (if 1 \<le> x then int (floor_log2 (nat \<lfloor>x\<rfloor>))
      else - int (Suc (floor_log2 (nat (\<lceil>1 / x\<rceil> - 1)))))"

definition pow2 :: "int \<Rightarrow> rat" where
  "pow2 e = (if 0 \<le> e then 2 ^ nat e else 1 / 2 ^ nat (- e))"

definition fl :: "rat \<Rightarrow> rat" where
  \<comment> \<open>The double nearest to \<open>x\<close>: 53 bits of mantissa.\<close>
  "fl x =
     (if x = 0 then 0
      else let u = pow2 (binade \<bar>x\<bar> - 52)
           in sgn x * of_int (round_half_even (\<bar>x\<bar> / u)) * u)"

definition fadd :: "rat \<Rightarrow> rat \<Rightarrow> rat" where
  "fadd x y = fl (x + y)"

definition fsub :: "rat \<Rightarrow> rat \<Rightarrow> rat" where
  "fsub x y = fl (x - y)"

definition fmul :: "rat \<Rightarrow> rat \<Rightarrow> rat" where
  "fmul x y = fl (x * y)"

definition fdiv :: "rat \<Rightarrow> rat \<Rightarrow> rat" where
  \<comment> \<open>True division by a divisor that is not zero; the callers test the divisor.\<close>
  "fdiv x y = fl (x / y)"

definition py_float :: "int \<Rightarrow> rat" where
  \<comment> \<open>The conversion of an integer operand in mixed arithmetic.\<close>
  "py_float n = fl (of_int n)"

definition py_round :: "nat \<Rightarrow> rat \<Rightarrow> rat" where
  \<comment> \<open>\<open>round(x, n)\<close>: the exact value of \<open>x\<close> rounded half-even to \<open>n\<close> decimals, and the
      double nearest to that decimal.\<close>
  "py_round n x = fl (of_int (round_half_even (x * 10 ^ n)) / 10 ^ n)"

section \<open>The topic cluster generator\<close>

subsection \<open>ClusterContent and PillarPage\<close>

record ClusterContent =
  cc_title :: string
  cc_target_keyword :: string
  cc_search_volume :: int
  cc_difficulty :: string
  cc_word_count :: int
  cc_content_type :: string
  cc_url_slug :: string

record PillarPage =
  pp_title :: string
  pp_target_keyword :: string
  pp_description :: string
  pp_clusters :: "ClusterContent list"
  pp_word_count :: int
  pp_url_slug :: string

definition slug_of_title :: "string \<Rightarrow> string" where
  "slug_of_title t = py_replace_char CHR '' '' CHR ''-'' (py_lower t)"

definition new_ClusterContent ::
  "string \<Rightarrow> string \<Rightarrow> int \<Rightarrow> string \<Rightarrow> int \<Rightarrow> string \<Rightarrow> string \<Rightarrow> ClusterContent" where
  \<comment> \<open>The dataclass constructor followed by \<open>__post_init__\<close>.\<close>
  "new_ClusterContent t k sv d wc ct slug =
     \<lparr>cc_title = t, cc_target_keyword = k, cc_search_volume = sv, cc_difficulty = d,
      cc_word_count = wc, cc_content_type = ct,
      cc_url_slug = (if slug = [] then slug_of_title t else slug)\<rparr>"

definition new_PillarPage ::
  "string \<Rightarrow> string \<Rightarrow> string \<Rightarrow> ClusterContent list \<Rightarrow> int \<Rightarrow> string \<Rightarrow> PillarPage" where
  "new_PillarPage t k d cs wc slug =
     \<lparr>pp_title = t, pp_target_keyword = k, pp_description = d, pp_clusters = cs,
      pp_word_count = wc,
      pp_url_slug = (if slug = [] then slug_of_title t else slug)\<rparr>"

definition add_cluster :: "PillarPage \<Rightarrow> ClusterContent \<Rightarrow> PillarPage" where
  "add_cluster p c = p\<lparr>pp_clusters := pp_clusters p @ [c]\<rparr>"

definition get_cluster_count :: "PillarPage \<Rightarrow> nat" where
  "get_cluster_count p = length (pp_clusters p)"

subsection \<open>Cluster ideas from the subtopic templates\<close>

definition guide_templates :: "string list" where
  "guide_templates =
     [''What is {topic}'', ''How to {topic}'', ''{topic} for beginners'',
      ''{topic} best practices'', ''{topic} tips and tricks'',
      ''{topic} tools and resources'', ''{topic} examples'',
      ''{topic} mistakes to avoid'', ''{topic} checklist'',
      ''{topic} step by step guide'']"

definition product_templates :: "string list" where
  "product_templates =
     [''Best {topic}'', ''{topic} reviews'', ''{topic} comparison'', ''{topic} pricing'',
      ''{topic} features'', ''{topic} alternatives'', ''How to choose {topic}'',
      ''{topic} for small business'', ''{topic} for enterprise'',
      ''{topic} vs competitors'']"

definition service_templates :: "string list" where
  "service_templates =
     [''{topic} services'', ''{topic} cost'', ''How to hire {topic}'', ''{topic} benefits'',
      ''{topic} process'', ''{topic} case studies'', ''{topic} ROI'', ''{topic} consultant'',
      ''{topic} agency'', ''DIY {topic} vs professional'']"

definition SUBTOPIC_TEMPLATES :: "string \<rightharpoonup> string list" where
  "SUBTOPIC_TEMPLATES =
     [''guide'' \<mapsto> guide_templates, ''product'' \<mapsto> product_templates,
      ''service'' \<mapsto> service_templates]"

function format_topic :: "string \<Rightarrow> string \<Rightarrow> string" where
  "format_topic [] topic = []"
| "format_topic (c # cs) topic =
     (if c = CHR ''{'' \<and> take 6 cs = ''topic}''
      then topic @ format_topic (drop 6 cs) topic
      else c # format_topic cs topic)"
  by pat_completeness auto
termination
  by (relation "measure (\<lambda>(s, t). length s)") auto

text \<open>
  \<open>format_topic t topic\<close> is \<open>t.format(topic=topic)\<close> for a template whose only braces
  are those of \<open>{topic}\<close> fields, which holds for every template of the three lists: each
  field is replaced by the topic, the rest is copied.
\<close>

definition generate_cluster_ideas :: "string \<Rightarrow> string \<Rightarrow> int \<Rightarrow> string list" where
  "generate_cluster_ideas pillar_topic template_type count =
     (let templates = (case SUBTOPIC_TEMPLATES template_type of
                         Some ts \<Rightarrow> ts
                       | None \<Rightarrow> guide_templates)
      in foldl (\<lambda>ideas template. ideas @ [format_topic template pillar_topic])
           [] (py_slice_to templates count))"

subsection \<open>Internal linking strategy\<close>

record link =
  link_from :: string
  link_to :: string
  link_anchor_text :: string
  link_context :: string

record linking_strategy =
  pillar_to_clusters :: "link list"
  clusters_to_pillar :: "link list"
  cluster_to_cluster :: "link list"

definition related_link :: "ClusterContent \<Rightarrow> ClusterContent \<Rightarrow> link" where
  "related_link cluster1 cluster2 =
     \<lparr>link_from = cc_url_slug cluster1, link_to = cc_url_slug cluster2,
      link_anchor_text = cc_target_keyword cluster2,
      link_context = ''Related topic link''\<rparr>"

definition generate_internal_linking_strategy :: "PillarPage \<Rightarrow> linking_strategy" where
  "generate_internal_linking_strategy pillar =
     \<lparr>pillar_to_clusters =
        map (\<lambda>cluster.
               \<lparr>link_from = pp_url_slug pillar, link_to = cc_url_slug cluster,
                link_anchor_text = cc_target_keyword cluster,
                link_context = ''Link from pillar page section about '' @ cc_title cluster\<rparr>)
          (pp_clusters pillar),
      clusters_to_pillar =
        map (\<lambda>cluster.
               \<lparr>link_from = cc_url_slug cluster, link_to = pp_url_slug pillar,
                link_anchor_text = pp_target_keyword pillar,
                link_context = ''Link to main '' @ pp_title pillar @ '' guide''\<rparr>)
          (pp_clusters pillar),
      cluster_to_cluster =
        concat (map (\<lambda>(i, cluster1).
                  concat (map (\<lambda>cluster2.
                                 if cluster1 \<noteq> cluster2
                                 then [related_link cluster1 cluster2] else [])
                            (py_slice (pp_clusters pillar) (i + 1) (i + 3))))
          (enumerate 0 (pp_clusters pillar)))\<rparr>"

text \<open>
  The forward-two-window rule in the specification's words: one edge from position \<open>i\<close>
  to each of the positions \<open>i + 1\<close> and \<open>i + 2\<close> that exist, in list order.
\<close>

definition forward_window_edges :: "ClusterContent list \<Rightarrow> link list" where
  "forward_window_edges cs =
     [related_link (cs ! i) (cs ! j). i \<leftarrow> [0..<length cs], j \<leftarrow> [i + 1, i + 2],
        j < length cs]"

definition forward_window_distinct_edges :: "ClusterContent list \<Rightarrow> link list" where
  "forward_window_distinct_edges cs =
     [related_link (cs ! i) (cs ! j). i \<leftarrow> [0..<length cs], j \<leftarrow> [i + 1, i + 2],
        j < length cs, cs ! i \<noteq> cs ! j]"

definition selected_templates :: "string \<Rightarrow> string list" where
  \<comment> \<open>The specification's selection rule: guide, product or service, and the guide
      list for any other type.\<close>
  "selected_templates template_type =
     (if template_type = ''product'' then product_templates
      else if template_type = ''service'' then service_templates
      else guide_templates)"

subsection \<open>JSON export\<close>

text \<open>
  \<open>_export_json\<close> builds a dictionary of strings, integers, lists and dictionaries and
  hands it to \<open>json.dumps\<close>. The dictionary is modelled as a JSON value, objects keeping
  their keys in insertion order. \<open>json.dumps\<close> and \<open>json.loads\<close> belong to the standard
  library; on such values \<open>json.loads (json.dumps v) = v\<close>, so the value a client parses
  from the exported text is \<open>export_json pillar\<close> itself.
\<close>

datatype json = JString string | JInt int | JArray "json list" | JObject "(string \<times> json) list"

definition link_json :: "link \<Rightarrow> json" where
  "link_json l =
     JObject [(''from'', JString (link_from l)), (''to'', JString (link_to l)),
              (''anchor_text'', JString (link_anchor_text l)),
              (''context'', JString (link_context l))]"

definition linking_strategy_json :: "linking_strategy \<Rightarrow> json" where
  "linking_strategy_json s =
     JObject [(''pillar_to_clusters'', JArray (map link_json (pillar_to_clusters s))),
              (''clusters_to_pillar'', JArray (map link_json (clusters_to_pillar s))),
              (''cluster_to_cluster'', JArray (map link_json (cluster_to_cluster s)))]"

definition export_json :: "PillarPage \<Rightarrow> json" where
  "export_json pillar =
     JObject
       [(''pillar'',
           JObject [(''title'', JString (pp_title pillar)),
                    (''target_keyword'', JString (pp_target_keyword pillar)),
                    (''description'', JString (pp_description pillar)),
                    (''word_count'', JInt (pp_word_count pillar)),
                    (''url_slug'', JString (pp_url_slug pillar))]),
        (''clusters'',
           JArray (map (\<lambda>c.
                     JObject [(''title'', JString (cc_title c)),
                              (''target_keyword'', JString (cc_target_keyword c)),
                              (''search_volume'', JInt (cc_search_volume c)),
                              (''difficulty'', JString (cc_difficulty c)),
                              (''word_count'', JInt (cc_word_count c)),
                              (''url_slug'', JString (cc_url_slug c))])
                   (pp_clusters pillar))),
        (''internal_linking'',
           linking_strategy_json (generate_internal_linking_strategy pillar))]"

text \<open>Reading a parsed export: member lookup and the value behind it.\<close>

fun json_get :: "json \<Rightarrow> string \<Rightarrow> json option" where
  "json_get (JObject kvs) k = map_of kvs k"
| "json_get _ k = None"

fun json_str :: "json option \<Rightarrow> string option" where
  "json_str (Some (JString s)) = Some s"
| "json_str _ = None"

fun json_int :: "json option \<Rightarrow> int option" where
  "json_int (Some (JInt i)) = Some i"
| "json_int _ = None"

fun json_items :: "json option \<Rightarrow> json list" where
  "json_items (Some (JArray xs)) = xs"
| "json_items _ = []"

record cluster_fields =
  cf_title :: "string option"
  cf_target_keyword :: "string option"
  cf_search_volume :: "int option"
  cf_difficulty :: "string option"
  cf_word_count :: "int option"
  cf_content_type :: "string option"
  cf_url_slug :: "string option"

definition read_cluster :: "json \<Rightarrow> cluster_fields" where
  \<comment> \<open>What a parsed cluster object holds for each field of ClusterContent.\<close>
  "read_cluster j =
     \<lparr>cf_title = json_str (json_get j ''title''),
      cf_target_keyword = json_str (json_get j ''target_keyword''),
      cf_search_volume = json_int (json_get j ''search_volume''),
      cf_difficulty = json_str (json_get j ''difficulty''),
      cf_word_count = json_int (json_get j ''word_count''),
      cf_content_type = json_str (json_get j ''content_type''),
      cf_url_slug = json_str (json_get j ''url_slug'')\<rparr>"

definition all_fields :: "ClusterContent \<Rightarrow> cluster_fields" where
  "all_fields c =
     \<lparr>cf_title = Some (cc_title c),
      cf_target_keyword = Some (cc_target_keyword c),
      cf_search_volume = Some (cc_search_volume c),
      cf_difficulty = Some (cc_difficulty c),
      cf_word_count = Some (cc_word_count c),
      cf_content_type = Some (cc_content_type c),
      cf_url_slug = Some (cc_url_slug c)\<rparr>"

definition exported_fields :: "ClusterContent \<Rightarrow> cluster_fields" where
  "exported_fields c = (all_fields c)\<lparr>cf_content_type := None\<rparr>"

definition example_cluster :: "string \<Rightarrow> ClusterContent" where
  "example_cluster t = new_ClusterContent t t 0 ''medium'' 1500 ''blog_post'' []"

definition example_pillar :: "ClusterContent list \<Rightarrow> PillarPage" where
  "example_pillar cs = new_PillarPage ''Pillar'' ''pillar'' ''about'' cs 3000 []"

section \<open>The user intent analyzer\<close>

datatype SearchIntent = INFORMATIONAL | NAVIGATIONAL | COMMERCIAL | TRANSACTIONAL

fun intent_value :: "SearchIntent \<Rightarrow> string" where
  "intent_value INFORMATIONAL = ''informational''"
| "intent_value NAVIGATIONAL = ''navigational''"
| "intent_value COMMERCIAL = ''commercial_investigation''"
| "intent_value TRANSACTIONAL = ''transactional''"

definition INFORMATIONAL_MODIFIERS :: "string list" where
  "INFORMATIONAL_MODIFIERS =
     [''how'', ''what'', ''why'', ''when'', ''where'', ''who'',
      ''guide'', ''tutorial'', ''tips'', ''learn'', ''explain'',
      ''definition'', ''meaning'', ''examples'', ''benefits'',
      ''difference between'', ''vs'', ''comparison'']"

definition NAVIGATIONAL_MODIFIERS :: "string list" where
  "NAVIGATIONAL_MODIFIERS =
     [''login'', ''sign in'', ''official site'', ''website'',
      ''homepage'', ''portal'', ''dashboard'', ''account'']"

definition COMMERCIAL_MODIFIERS :: "string list" where
  "COMMERCIAL_MODIFIERS =
     [''best'', ''top'', ''review'', ''reviews'', ''comparison'',
      ''compare'', ''vs'', ''versus'', ''alternative'', ''alternatives'',
      ''cheapest'', ''affordable'', ''recommended'', ''rating'']"

definition TRANSACTIONAL_MODIFIERS :: "string list" where
  "TRANSACTIONAL_MODIFIERS =
     [''buy'', ''purchase'', ''order'', ''shop'', ''price'',
      ''cost'', ''cheap'', ''deal'', ''discount'', ''coupon'',
      ''subscribe'', ''download'', ''get'', ''hire'', ''book'',
      ''reserve'', ''appointment'', ''quote'']"

fun modifiers :: "SearchIntent \<Rightarrow> string list" where
  "modifiers INFORMATIONAL = INFORMATIONAL_MODIFIERS"
| "modifiers NAVIGATIONAL = NAVIGATIONAL_MODIFIERS"
| "modifiers COMMERCIAL = COMMERCIAL_MODIFIERS"
| "modifiers TRANSACTIONAL = TRANSACTIONAL_MODIFIERS"

text \<open>
  \<open>_compile_patterns\<close> fills a dictionary in the order informational, navigational,
  commercial, transactional; every later iteration over it, and over the dictionaries
  built from it, follows that order.
\<close>

definition first_intent :: SearchIntent where
  "first_intent = INFORMATIONAL"

definition other_intents :: "SearchIntent list" where
  "other_intents = [NAVIGATIONAL, COMMERCIAL, TRANSACTIONAL]"

definition intents :: "SearchIntent list" where
  "intents = first_intent # other_intents"

subsection \<open>The compiled patterns\<close>

definition re_escape :: "string \<Rightarrow> string" where
  \<comment> \<open>\<open>re.escape\<close>: a backslash before each special character.\<close>
  "re_escape s =
     concat (map (\<lambda>c. if c \<in> set ''()[]{}?*+-|^$.&~# '' \<or>
                         c \<in> set [CHR 0x5C, CHR 0x09, CHR 0x0A, CHR 0x0D, CHR 0x0B, CHR 0x0C]
                      then [CHR 0x5C, c] else [c]) s)"

definition pattern_text :: "string \<Rightarrow> string" where
  \<comment> \<open>The text of the pattern compiled for a modifier: \<open>r'\b' + re.escape(mod) + r'\b'\<close>.\<close>
  "pattern_text m = [CHR 0x5C, CHR ''b''] @ re_escape m @ [CHR 0x5C, CHR ''b'']"

fun hd_opt :: "'a list \<Rightarrow> 'a option" where
  "hd_opt [] = None"
| "hd_opt (x # xs) = Some x"

fun is_word :: "char option \<Rightarrow> bool" where
  "is_word None = False"
| "is_word (Some c) = re_word_char c"

definition re_boundary :: "char option \<Rightarrow> char option \<Rightarrow> bool" where
  \<comment> \<open>The pattern \<open>\b\<close> between the character before and the character after a position
      (\<open>None\<close> at an end of the text).\<close>
  "re_boundary prev nxt = (is_word prev \<noteq> is_word nxt)"

fun literal_end :: "char option \<Rightarrow> string \<Rightarrow> string \<Rightarrow> (char option \<times> string) option" where
  \<comment> \<open>The literal \<open>lit\<close> read off the start of the text, letters compared without case
      (IGNORECASE): the last character read (\<open>prev\<close> when \<open>lit\<close> is empty) and the text
      that follows, or \<open>None\<close> when the text does not start with the literal.\<close>
  "literal_end prev [] s = Some (prev, s)"
| "literal_end prev (p # ps) [] = None"
| "literal_end prev (p # ps) (c # cs) =
     (if py_lower_char c = py_lower_char p then literal_end (Some c) ps cs else None)"

definition word_match :: "char option \<Rightarrow> string \<Rightarrow> string \<Rightarrow> bool" where
  \<comment> \<open>\<open>\b lit \b\<close> matches at the start of \<open>s\<close>, the text before it ending in \<open>prev\<close>.\<close>
  "word_match prev lit s =
     (if re_boundary prev (hd_opt s)
      then (case literal_end prev lit s of
              None \<Rightarrow> False
            | Some (last_read, rest) \<Rightarrow> re_boundary last_read (hd_opt rest))
      else False)"

fun word_search_from :: "char option \<Rightarrow> string \<Rightarrow> string \<Rightarrow> bool" where
  \<comment> \<open>The scan of \<open>search\<close>: the first position where the pattern matches.\<close>
  "word_search_from prev lit [] = word_match prev lit []"
| "word_search_from prev lit (c # cs) =
     (if word_match prev lit (c # cs) then True else word_search_from (Some c) lit cs)"

definition pattern_search :: "string \<Rightarrow> string \<Rightarrow> bool" where
  \<comment> \<open>\<open>pattern.search(text)\<close> for the pattern of modifier \<open>m\<close>: a match at some position.\<close>
  "pattern_search m text = word_search_from None m text"

subsection \<open>analyze_query\<close>

record Recommendation =
  rec_content_type :: string
  rec_format :: string
  rec_elements :: "string list"
  rec_cta :: string

fun get_recommendations :: "SearchIntent \<Rightarrow> Recommendation" where
  "get_recommendations INFORMATIONAL =
     \<lparr>rec_content_type = ''Blog post, guide, tutorial, how-to article'',
      rec_format = ''Long-form content (1,500-3,000 words)'',
      rec_elements = [''Clear headings and subheadings'', ''Step-by-step instructions'',
                      ''Examples and visuals'', ''FAQ section'', ''Related articles''],
      rec_cta = ''Subscribe to newsletter, download guide, read related content''\<rparr>"
| "get_recommendations NAVIGATIONAL =
     \<lparr>rec_content_type = ''Homepage, brand page, login page'',
      rec_format = ''Clear navigation and branding'',
      rec_elements = [''Prominent brand name'', ''Clear navigation menu'',
                      ''Search functionality'', ''Quick links to popular pages''],
      rec_cta = ''Sign up, login, explore products/services''\<rparr>"
| "get_recommendations COMMERCIAL =
     \<lparr>rec_content_type = ''Comparison article, review, buyer'' @ [CHR 0x27] @ ''s guide'',
      rec_format = ''Structured comparison (1,500-2,500 words)'',
      rec_elements = [''Comparison tables'', ''Pros and cons lists'',
                      ''Product specifications'', ''Expert opinions'', ''User reviews''],
      rec_cta = ''Read full review, compare products, get pricing''\<rparr>"
| "get_recommendations TRANSACTIONAL =
     \<lparr>rec_content_type = ''Product page, service page, pricing page'',
      rec_format = ''Conversion-focused layout'',
      rec_elements = [''Clear product/service details'', ''Pricing information'',
                      ''Trust signals (reviews, guarantees)'', ''Strong call-to-action'',
                      ''Easy checkout process''],
      rec_cta = ''Buy now, add to cart, get quote, subscribe''\<rparr>"

record IntentResult =
  query :: string
  primary_intent :: SearchIntent
  confidence :: rat
  intent_scores :: "(SearchIntent \<times> nat) list"
  matched_modifiers :: "string list"
  recommendations :: Recommendation

fun py_max_by :: "('a \<Rightarrow> nat) \<Rightarrow> 'a \<Rightarrow> 'a list \<Rightarrow> 'a" where
  \<comment> \<open>\<open>max(xs, key=key)\<close> over \<open>best # xs\<close>: a later element replaces the best one only
      when its key is strictly greater.\<close>
  "py_max_by key best [] = best"
| "py_max_by key best (x # xs) = py_max_by key (if key best < key x then x else best) xs"

definition starts_with_interrogative :: "string \<Rightarrow> bool" where
  "starts_with_interrogative q =
     list_ex (py_startswith q) [''how '', ''what '', ''why '', ''when '', ''where '']"

definition apply_heuristics :: "string \<Rightarrow> SearchIntent \<times> rat" where
  "apply_heuristics q =
     (if starts_with_interrogative q then (INFORMATIONAL, fl (8 / 10))
      else if length (py_split q) \<le> 2 \<and>
              \<not> list_ex (\<lambda>c. py_in c q) [''?'', ''how'', ''what'']
      then (NAVIGATIONAL, fl (6 / 10))
      else if 3 \<le> length (py_split q) then (INFORMATIONAL, fl (5 / 10))
      else (INFORMATIONAL, fl (4 / 10)))"

definition matches :: "SearchIntent \<Rightarrow> string \<Rightarrow> string list" where
  \<comment> \<open>The inner loop of \<open>analyze_query\<close>: one entry per pattern of the intent that is
      found in the query, the pattern's text stripped of the characters of \<open>r'\b'\<close>.\<close>
  "matches intent query_lower =
     map (\<lambda>m. py_strip_chars (pattern_text m) [CHR 0x5C, CHR ''b''])
       (filter (\<lambda>m. pattern_search m query_lower) (modifiers intent))"

definition match_count :: "SearchIntent \<Rightarrow> string \<Rightarrow> nat" where
  \<comment> \<open>The modifier-match count of an intent for a query: how many of the intent's
      modifiers occur in the lowered, stripped query as a whole word.\<close>
  "match_count intent q =
     length (filter (\<lambda>m. pattern_search m (py_strip (py_lower q))) (modifiers intent))"

definition score_item :: "string \<Rightarrow> SearchIntent \<Rightarrow> SearchIntent \<times> nat" where
  "score_item query_lower intent = (intent, length (matches intent query_lower))"

definition analyze_query :: "string \<Rightarrow> IntentResult" where
  "analyze_query q =
     (let query_lower = py_strip (py_lower q);
          scores = map (score_item query_lower) intents;
          (primary, conf) =
            (if list_all (\<lambda>(intent, score). score = 0) scores
             then apply_heuristics query_lower
             else let max_score = py_max_by id (snd (score_item query_lower first_intent))
                                    (map (\<lambda>i. snd (score_item query_lower i)) other_intents);
                      best = fst (py_max_by snd (score_item query_lower first_intent)
                                    (map (score_item query_lower) other_intents));
                      total_score = sum_list (map snd scores)
                  in (best, if 0 < total_score
                            then fdiv (of_nat max_score) (of_nat total_score)
                            else fl (5 / 10)))
      in \<lparr>query = q,
          primary_intent = primary,
          confidence = py_round 2 conf,
          intent_scores = scores,
          matched_modifiers = matches primary query_lower,
          recommendations = get_recommendations primary\<rparr>)"

definition analyze_batch :: "string list \<Rightarrow> IntentResult list" where
  "analyze_batch queries = map analyze_query queries"

subsection \<open>get_intent_distribution\<close>

datatype py_error = ZeroDivisionError | AttributeError

record IntentDistribution =
  total_queries :: nat
  distribution :: "(SearchIntent \<times> nat) list"
  percentages :: "(SearchIntent \<times> rat) list"
  dominant_intent :: SearchIntent

definition count_intent :: "(SearchIntent \<Rightarrow> nat) \<Rightarrow> IntentResult \<Rightarrow> (SearchIntent \<Rightarrow> nat)" where
  \<comment> \<open>\<open>distribution[result['primary_intent']] += 1\<close>\<close>
  "count_intent counts result =
     counts(primary_intent result := counts (primary_intent result) + 1)"

definition get_intent_distribution :: "string list \<Rightarrow> py_error + IntentDistribution" where
  \<comment> \<open>The dictionary \<open>distribution\<close> has the four intents as its keys, in the order of
      \<open>intents\<close>; it is modelled by its values, its items listed in that order.\<close>
  "get_intent_distribution queries =
     (let results = analyze_batch queries;
          counts = foldl count_intent (\<lambda>intent. 0) results;
          total = length queries
      in if total = 0 then Inl ZeroDivisionError
         else Inr \<lparr>total_queries = total,
                   distribution = map (\<lambda>i. (i, counts i)) intents,
                   percentages =
                     map (\<lambda>i. (i, py_round 1
                                     (fmul (fdiv (of_nat (counts i)) (of_nat total)) 100)))
                       intents,
                   dominant_intent =
                     fst (py_max_by snd (first_intent, counts first_intent)
                            (map (\<lambda>i. (i, counts i)) other_intents))\<rparr>)"

section \<open>The content quality checker\<close>

subsection \<open>Patterns searched in the content\<close>

text \<open>
  Each regular expression of the module is modelled by a function that tells whether, and
  over how many characters, the expression matches at the start of a text; \<open>re_count\<close> is
  the scan of \<open>re.findall\<close> over such a matcher: matches are taken left to right and do
  not overlap. None of the expressions matches the empty text. The bullet character of
  the list pattern lies outside Latin-1, so that alternative never matches here.
\<close>

function re_count :: "(string \<Rightarrow> nat option) \<Rightarrow> string \<Rightarrow> nat" where
  "re_count m [] = 0"
| "re_count m (c # cs) =
     (case m (c # cs) of
        Some n \<Rightarrow> Suc (re_count m (drop (n - 1) cs))
      | None \<Rightarrow> re_count m cs)"
  by pat_completeness auto
termination
  by (relation "measure (\<lambda>(m, s). length s)") auto

definition newline :: char where
  "newline = CHR 0x0A"

definition list_marker_here :: "string \<Rightarrow> bool" where
  \<comment> \<open>After a newline: \<open>-\<close>, or digits followed by a dot.\<close>
  "list_marker_here s =
     (case s of
        [] \<Rightarrow> False
      | c # cs \<Rightarrow>
          if c = CHR ''-'' then True
          else if re_digit c
          then (case dropWhile re_digit cs of [] \<Rightarrow> False | d # r \<Rightarrow> d = CHR ''.'')
          else False)"

fun has_list_marker :: "string \<Rightarrow> bool" where
  \<comment> \<open>\<open>re.search(r'(\n-|\n\d+\.|\n[bullet])', content)\<close>\<close>
  "has_list_marker [] = False"
| "has_list_marker (c # cs) =
     (if c = newline then (if list_marker_here cs then True else has_list_marker cs)
      else has_list_marker cs)"

definition heading_mark :: "string \<Rightarrow> string option" where
  \<comment> \<open>\<open>#{1,6}\s\<close> at the start of the text: the text after the whitespace character.\<close>
  "heading_mark s =
     (let hashes = takeWhile (\<lambda>c. c = CHR ''#'') s
      in if hashes = [] then None
         else if 6 < length hashes then None
         else (case dropWhile (\<lambda>c. c = CHR ''#'') s of
                 [] \<Rightarrow> None
               | w # r \<Rightarrow> if py_isspace w then Some r else None))"

fun heading_after_newline :: "string \<Rightarrow> bool" where
  "heading_after_newline [] = False"
| "heading_after_newline (c # cs) =
     (if c = newline
      then (if heading_mark cs \<noteq> None then True else heading_after_newline cs)
      else heading_after_newline cs)"

definition has_heading :: "string \<Rightarrow> bool" where
  \<comment> \<open>\<open>re.search(r'(^|\n)#{1,6}\s', content)\<close>\<close>
  "has_heading content =
     (if heading_mark content \<noteq> None then True else heading_after_newline content)"

definition heading_line_len :: "string \<Rightarrow> nat option" where
  \<comment> \<open>\<open>#{1,6}\s.+\<close> at the start of the text: the dot does not match a newline, and
      \<open>.+\<close> runs to the end of the line.\<close>
  "heading_line_len s =
     (case heading_mark s of
        None \<Rightarrow> None
      | Some r \<Rightarrow>
          (case r of
             [] \<Rightarrow> None
           | x # xs \<Rightarrow>
               if x = newline then None
               else Some (length (takeWhile (\<lambda>c. c = CHR ''#'') s) + 1 +
                          length (takeWhile (\<lambda>c. c \<noteq> newline) r))))"

definition newline_heading_len :: "string \<Rightarrow> nat option" where
  "newline_heading_len s =
     (case s of
        [] \<Rightarrow> None
      | c # cs \<Rightarrow> if c = newline then map_option Suc (heading_line_len cs) else None)"

definition count_headings :: "string \<Rightarrow> nat" where
  \<comment> \<open>\<open>len(re.findall(r'(^|\n)#{1,6}\s.+', content))\<close>: without MULTILINE the caret
      matches at the start of the content only.\<close>
  "count_headings content =
     (case heading_line_len content of
        Some n \<Rightarrow> Suc (re_count newline_heading_len (drop n content))
      | None \<Rightarrow> re_count newline_heading_len content)"

definition number_len :: "string \<Rightarrow> nat option" where
  \<comment> \<open>\<open>\d+\]?\<close>\<close>
  "number_len s =
     (let k = length (takeWhile re_digit s)
      in if k = 0 then None
         else (case dropWhile re_digit s of
                 [] \<Rightarrow> Some k
               | d # r \<Rightarrow> if d = CHR '']'' then Some (Suc k) else Some k))"

definition citation_len :: "string \<Rightarrow> nat option" where
  \<comment> \<open>\<open>\[?\d+\]?|source:|reference:\<close>\<close>
  "citation_len s =
     (case s of
        [] \<Rightarrow> None
      | c # cs \<Rightarrow>
          (case (if c = CHR ''['' then map_option Suc (number_len cs) else None) of
             Some n \<Rightarrow> Some n
           | None \<Rightarrow>
               (case number_len (c # cs) of
                  Some n \<Rightarrow> Some n
                | None \<Rightarrow>
                    if py_startswith (c # cs) ''source:'' then Some 7
                    else if py_startswith (c # cs) ''reference:'' then Some 10
                    else None)))"

fun close_len :: "string \<Rightarrow> nat option" where
  \<comment> \<open>The rest of a lazy \<open>.+?\)\<close> after its first character: up to the first closing
      parenthesis of the line.\<close>
  "close_len [] = None"
| "close_len (c # cs) =
     (if c = CHR '')'' then Some 1
      else if c = newline then None
      else map_option Suc (close_len cs))"

definition target_len :: "string \<Rightarrow> nat option" where
  \<comment> \<open>\<open>\(.+?\)\<close>\<close>
  "target_len s =
     (case s of
        [] \<Rightarrow> None
      | p # r \<Rightarrow>
          if p = CHR ''('' then
            (case r of
               [] \<Rightarrow> None
             | x # xs \<Rightarrow> if x = newline then None else map_option (\<lambda>k. k + 2) (close_len xs))
          else None)"

fun text_len :: "string \<Rightarrow> nat option" where
  \<comment> \<open>The rest of a lazy \<open>.+?\]\(.+?\)\<close> after its first character: the first closing
      bracket from which the target matches.\<close>
  "text_len [] = None"
| "text_len (c # cs) =
     (if c = CHR '']'' then
        (case target_len cs of
           Some k \<Rightarrow> Some (Suc k)
         | None \<Rightarrow> map_option Suc (text_len cs))
      else if c = newline then None
      else map_option Suc (text_len cs))"

definition link_len :: "string \<Rightarrow> nat option" where
  \<comment> \<open>\<open>\[.+?\]\(.+?\)\<close>\<close>
  "link_len s =
     (case s of
        [] \<Rightarrow> None
      | b # r \<Rightarrow>
          if b = CHR ''['' then
            (case r of
               [] \<Rightarrow> None
             | x # xs \<Rightarrow> if x = newline then None else map_option (\<lambda>k. k + 2) (text_len xs))
          else None)"

definition url_len :: "string \<Rightarrow> nat option" where
  \<comment> \<open>\<open>https?://\<close>\<close>
  "url_len s =
     (if py_startswith s ''https://'' then Some 8
      else if py_startswith s ''http://'' then Some 7
      else None)"

subsection \<open>Sentences, words and syllables\<close>

definition sentence_end :: "char \<Rightarrow> bool" where
  "sentence_end c = (c = CHR ''.'' \<or> c = CHR ''!'' \<or> c = CHR ''?'')"

function sentence_pieces :: "string \<Rightarrow> string list" where
  \<comment> \<open>\<open>re.split(r'[.!?]+', text)\<close>\<close>
  "sentence_pieces s =
     (case dropWhile (\<lambda>c. \<not> sentence_end c) s of
        [] \<Rightarrow> [s]
      | d # r \<Rightarrow> takeWhile (\<lambda>c. \<not> sentence_end c) s # sentence_pieces (dropWhile sentence_end r))"
  by pat_completeness auto
termination
proof (relation "measure length", goal_cases)
  case 1
  show ?case by simp
next
  case (2 s d r)
  have "length (dropWhile sentence_end r) \<le> length r"
    by (rule length_dropWhile_le)
  also have "length r < length (dropWhile (\<lambda>c. \<not> sentence_end c) s)"
    using 2 by simp
  also have "\<dots> \<le> length s"
    by (rule length_dropWhile_le)
  finally show ?case by simp
qed

definition split_sentences :: "string \<Rightarrow> string list" where
  "split_sentences text = filter (\<lambda>s. s \<noteq> []) (map py_strip (sentence_pieces text))"

function words_from :: "char option \<Rightarrow> string \<Rightarrow> string list" where
  \<comment> \<open>The scan of \<open>re.findall(r'\b[a-zA-Z]+\b', text)\<close>, the text before ending in \<open>prev\<close>:
      a run of letters is a word when neither the character before it nor the one after
      it is a word character.\<close>
  "words_from prev [] = []"
| "words_from prev (c # cs) =
     (if ascii_alpha c then
        (if is_word prev then words_from (Some c) cs
         else if is_word (hd_opt (dropWhile ascii_alpha cs)) then words_from (Some c) cs
         else (c # takeWhile ascii_alpha cs) #
              words_from (Some (last (c # takeWhile ascii_alpha cs))) (dropWhile ascii_alpha cs))
      else words_from (Some c) cs)"
  by pat_completeness auto
termination
  by (relation "measure (\<lambda>(prev, s). length s)")
     (auto intro: le_imp_less_Suc length_dropWhile_le)

definition split_words :: "string \<Rightarrow> string list" where
  "split_words text = words_from None text"

definition count_syllables :: "string \<Rightarrow> int" where
  "count_syllables word =
     (let w = py_lower word;
          counted = fst (foldl (\<lambda>(n, previous_was_vowel) ch.
                                  (if ch \<in> set ''aeiouy'' \<and> \<not> previous_was_vowel then n + 1 else n,
                                   ch \<in> set ''aeiouy''))
                           (0, False) w);
          adjusted = (if w \<noteq> [] \<and> last w = CHR ''e'' then counted - 1 else counted)
      in if adjusted = 0 then 1 else adjusted)"

function py_split_on_acc :: "string \<Rightarrow> string \<Rightarrow> string \<Rightarrow> string list" where
  "py_split_on_acc acc sep [] = [rev acc]"
| "py_split_on_acc acc sep (c # cs) =
     (if sep = [] then py_split_on_acc (c # acc) sep cs
      else if py_startswith (c # cs) sep
      then rev acc # py_split_on_acc [] sep (drop (length sep - 1) cs)
      else py_split_on_acc (c # acc) sep cs)"
  by pat_completeness auto
termination
  by (relation "measure (\<lambda>(acc, sep, s). length s)") auto

definition py_split_on :: "string \<Rightarrow> string \<Rightarrow> string list" where
  \<comment> \<open>\<open>s.split(sep)\<close> for a separator that is not empty.\<close>
  "py_split_on s sep = py_split_on_acc [] sep s"

subsection \<open>The four sub-scores\<close>

type_synonym metadata = "string \<rightharpoonup> string"

definition md_get :: "metadata \<Rightarrow> string \<Rightarrow> string" where
  \<comment> \<open>\<open>metadata.get(key, '')\<close>; a missing key and the empty string are both falsy.\<close>
  "md_get md key = (case md key of None \<Rightarrow> [] | Some v \<Rightarrow> v)"

definition clamp_100 :: "rat \<Rightarrow> rat" where
  \<comment> \<open>\<open>max(0, min(100, x))\<close>\<close>
  "clamp_100 x = max 0 (min 100 x)"

definition calculate_readability :: "string \<Rightarrow> rat" where
  "calculate_readability content =
     (let sentences = split_sentences content;
          words = split_words content;
          syllables = sum_list (map count_syllables words)
      in if sentences = [] \<or> words = [] then 0
         else
           let avg_sentence_length = fdiv (of_nat (length words)) (of_nat (length sentences));
               avg_syllables_per_word = fdiv (of_int syllables) (of_nat (length words));
               flesch = clamp_100
                 (fsub (fsub (fl (206835 / 1000)) (fmul (fl (1015 / 1000)) avg_sentence_length))
                    (fmul (fl (846 / 10)) avg_syllables_per_word));
               base = fmul flesch (fl (6 / 10));
               paragraphs = py_split_on content [newline, newline];
               avg_paragraph_length =
                 (if paragraphs \<noteq> []
                  then fdiv (of_nat (length words)) (of_nat (length paragraphs)) else 0);
               with_paragraphs =
                 (if avg_paragraph_length < 100 then fadd base 10
                  else if avg_paragraph_length < 150 then fadd base 5
                  else base);
               with_lists =
                 (if has_list_marker content then fadd with_paragraphs 10 else with_paragraphs);
               with_headings =
                 (if has_heading content then fadd with_lists 10 else with_lists);
               long_sentences = length (filter (\<lambda>s. 25 < length (py_split s)) sentences);
               score =
                 (if fmul (py_float (int (length sentences))) (fl (3 / 10)) < of_nat long_sentences
                  then fsub with_headings 10 else with_headings)
           in clamp_100 score)"

definition EXPERIENCE_INDICATORS :: "string list" where
  "EXPERIENCE_INDICATORS =
     [''i tested'', ''i tried'', ''in my experience'', ''i found'',
      ''i used'', ''i noticed'', ''i discovered'', ''my results'',
      ''case study'', ''real-world example'', ''personal experience'']"

definition EXPERTISE_INDICATORS :: "string list" where
  "EXPERTISE_INDICATORS =
     [''certified'', ''expert'', ''professional'', ''years of experience'',
      ''specialist'', ''authority'', ''research shows'', ''studies indicate'',
      ''according to'', ''data shows'', ''statistics reveal'']"

definition TRUST_INDICATORS :: "string list" where
  "TRUST_INDICATORS =
     [''source:'', ''reference:'', ''citation:'', ''https://'',
      ''published'', ''peer-reviewed'', ''verified'', ''guaranteed'',
      ''privacy policy'', ''terms of service'', ''contact us'']"

definition count_present :: "string list \<Rightarrow> string \<Rightarrow> nat" where
  \<comment> \<open>\<open>sum(1 for indicator in indicators if indicator in text)\<close>\<close>
  "count_present indicators text = length (filter (\<lambda>indicator. py_in indicator text) indicators)"

definition calculate_eeat_score :: "string \<Rightarrow> nat" where
  "calculate_eeat_score content =
     (let content_lower = py_lower content;
          experience_count = count_present EXPERIENCE_INDICATORS content_lower;
          expertise_count = count_present EXPERTISE_INDICATORS content_lower;
          trust_count = count_present TRUST_INDICATORS content_lower;
          citation_count = re_count citation_len content_lower;
          score = min 30 (experience_count * 5) + min 30 (expertise_count * 5) +
                  min 40 (trust_count * 4) + min 10 (citation_count * 2);
          score = foldl (\<lambda>score domain.
                           if py_in (CHR ''.'' # domain) content_lower then score + 5 else score)
                    score [''edu'', ''gov'', ''org'']
      in min 100 score)"

definition seo_points :: "string \<Rightarrow> string \<Rightarrow> string \<Rightarrow> string \<Rightarrow> nat" where
  \<comment> \<open>\<open>calculate_seo_score\<close> from the test of the target keyword on; the keyword, the
      title and the meta description have been lowered.\<close>
  "seo_points content target_keyword title meta_description =
     (if target_keyword = [] then 50
      else
        let content_lower = py_lower content;
            in_title = (if py_in target_keyword title then 15 else 0);
            first_para = py_lower (take 500 content);
            in_first = (if py_in target_keyword first_para then 10 else 0);
            in_meta = (if py_in target_keyword meta_description then 10 else 0);
            keyword_count = py_count content_lower target_keyword;
            word_count = length (split_words content);
            density_points =
              (if 0 < word_count then
                 let density = fmul (fdiv (of_nat keyword_count) (of_nat word_count)) 100
                 in if 1 / 2 \<le> density \<and> density \<le> 5 / 2 then 15
                    else if density < 1 / 2 then 5
                    else 0
               else 0);
            headings = count_headings content;
            heading_points = (if 3 \<le> headings then 10 else if 1 \<le> headings then 5 else 0);
            length_points =
              (if 1500 \<le> word_count then 15
               else if 1000 \<le> word_count then 10
               else if 500 \<le> word_count then 5
               else 0);
            internal_links = re_count link_len content;
            internal_points =
              (if 5 \<le> internal_links then 10
               else if 3 \<le> internal_links then 7
               else if 1 \<le> internal_links then 4
               else 0);
            external_links = re_count url_len content;
            external_points =
              (if 3 \<le> external_links then 10 else if 1 \<le> external_links then 5 else 0);
            image_points =
              (if py_in ''!['' content then 5 else if py_in ''<img'' content then 5 else 0)
        in min 100 (in_title + in_first + in_meta + density_points + heading_points +
                    length_points + internal_points + external_points + image_points))"

definition calculate_seo_score :: "string \<Rightarrow> metadata \<Rightarrow> nat" where
  \<comment> \<open>\<open>calculate_seo_score\<close> on metadata whose values are strings.\<close>
  "calculate_seo_score content md =
     (let target_keyword = py_lower (md_get md ''target_keyword'');
          title = py_lower (md_get md ''title'');
          meta_description = py_lower (md_get md ''meta_description'')
      in seo_points content target_keyword title meta_description)"

text \<open>
  The adapter hands \<open>check_content\<close> the metadata as decoded from JSON, so a value can be a
  string, null, a number, a boolean, a list or a dictionary. \<open>calculate_seo_score\<close> calls
  \<open>.lower()\<close> on the values of \<open>target_keyword\<close>, \<open>title\<close> and \<open>meta_description\<close>, in this
  order and before it tests the keyword; on a value that is not a string the call raises
  AttributeError.
\<close>

datatype py_value = PyStr string | PyNone | PyInt int | PyFloat rat | PyBool bool | PyList | PyDict

type_synonym json_metadata = "string \<rightharpoonup> py_value"

definition get_lower :: "json_metadata \<Rightarrow> string \<Rightarrow> py_error + string" where
  \<comment> \<open>\<open>metadata.get(key, '').lower()\<close>\<close>
  "get_lower md key =
     (case md key of
        None \<Rightarrow> Inr []
      | Some (PyStr s) \<Rightarrow> Inr (py_lower s)
      | Some other \<Rightarrow> Inl AttributeError)"

definition calculate_seo_score_json :: "string \<Rightarrow> json_metadata \<Rightarrow> py_error + nat" where
  \<comment> \<open>\<open>calculate_seo_score\<close> on metadata as decoded from JSON.\<close>
  "calculate_seo_score_json content md =
     (case get_lower md ''target_keyword'' of
        Inl e \<Rightarrow> Inl e
      | Inr target_keyword \<Rightarrow>
          (case get_lower md ''title'' of
             Inl e \<Rightarrow> Inl e
           | Inr title \<Rightarrow>
               (case get_lower md ''meta_description'' of
                  Inl e \<Rightarrow> Inl e
                | Inr meta_description \<Rightarrow>
                    Inr (seo_points content target_keyword title meta_description))))"

definition string_valued :: "json_metadata \<Rightarrow> string \<Rightarrow> bool" where
  \<comment> \<open>The key is absent, or its value is a string.\<close>
  "string_valued md key = (case md key of None \<Rightarrow> True | Some (PyStr s) \<Rightarrow> True | Some other \<Rightarrow> False)"

definition as_strings :: "metadata \<Rightarrow> json_metadata" where
  \<comment> \<open>String-valued metadata as the JSON it is decoded from.\<close>
  "as_strings md = (\<lambda>key. map_option PyStr (md key))"

definition calculate_completeness :: "string \<Rightarrow> metadata \<Rightarrow> nat" where
  "calculate_completeness content md =
     (let content_lower = py_lower content;
          intro_points = (if 200 < length content then 15 else 0);
          headings = count_headings content;
          heading_points =
            (if 5 \<le> headings then 20 else if 3 \<le> headings then 15
             else if 1 \<le> headings then 10 else 0);
          example_count =
            count_present [''example'', ''for instance'', ''such as'', ''like''] content_lower;
          example_points =
            (if 3 \<le> example_count then 15 else if 1 \<le> example_count then 10 else 0);
          list_points = (if has_list_marker content then 10 else 0);
          faq_points =
            (if list_ex (\<lambda>p. py_in p content_lower)
                  [''faq'', ''frequently asked'', ''question'', ''q&a'']
             then 10 else 0);
          conclusion_points =
            (if list_ex (\<lambda>p. py_in p content_lower)
                  [''conclusion'', ''summary'', ''in summary'', ''to summarize'',
                   ''key takeaways'']
             then 10 else 0);
          cta_points =
            (if list_ex (\<lambda>cta. py_in cta content_lower)
                  [''learn more'', ''get started'', ''sign up'', ''download'', ''contact us'',
                   ''try'']
             then 10 else 0);
          metadata_points =
            (if md_get md ''title'' \<noteq> [] \<and> md_get md ''meta_description'' \<noteq> [] then 10 else 0)
      in min 100 (intro_points + heading_points + example_points + list_points + faq_points +
                  conclusion_points + cta_points + metadata_points))"

subsection \<open>Grade, recommendations and the overall score\<close>

definition get_grade :: "rat \<Rightarrow> string" where
  "get_grade score =
     (if 90 \<le> score then ''A''
      else if 80 \<le> score then ''B''
      else if 70 \<le> score then ''C''
      else if 60 \<le> score then ''D''
      else ''F'')"

function py_str_nat :: "nat \<Rightarrow> string" where
  \<comment> \<open>\<open>str(n)\<close> for \<open>n\<close> that is not negative.\<close>
  "py_str_nat n =
     (if n < 10 then [char_of (48 + n)] else py_str_nat (n div 10) @ [char_of (48 + n mod 10)])"
  by pat_completeness auto
termination
  by (relation "measure id") auto

definition generate_recommendations ::
  "rat \<Rightarrow> nat \<Rightarrow> nat \<Rightarrow> nat \<Rightarrow> string \<Rightarrow> metadata \<Rightarrow> string list" where
  "generate_recommendations readability eeat seo completeness content md =
     (let r1 = (if readability < 70
                then [''Improve readability: Use shorter sentences and simpler words'',
                      ''Add more headings and bullet points to break up text'']
                else []);
          r2 = (if eeat < 70
                then [''Add personal experience and real-world examples'',
                      ''Include citations and references to authoritative sources'',
                      ''Demonstrate expertise with data, statistics, and research'']
                else []);
          r3 = (if seo < 70 then
                  (let target_keyword = md_get md ''target_keyword'';
                       word_count = length (split_words content)
                   in (if target_keyword \<noteq> [] then
                         (if \<not> py_in (py_lower target_keyword) (py_lower (take 500 content))
                          then [''Include target keyword '' @ [CHR 0x27] @ target_keyword @
                                [CHR 0x27] @ '' in the first paragraph'']
                          else []) @
                         (if word_count < 1500
                          then [''Expand content to at least 1,500 words (currently '' @
                                py_str_nat word_count @ '')'']
                          else [])
                       else []) @
                      (if re_count link_len content < 5
                       then [''Add more internal links to related content (5-10 recommended)'']
                       else []))
                else []);
          r4 = (if completeness < 70 then
                  (if \<not> list_ex (\<lambda>p. py_in p (py_lower content)) [''faq'', ''frequently asked'']
                   then [''Add an FAQ section to address common questions'']
                   else []) @
                  (if \<not> list_ex (\<lambda>p. py_in p (py_lower content)) [''conclusion'', ''summary'']
                   then [''Add a conclusion or summary section'']
                   else [])
                else []);
          recs = r1 @ r2 @ r3 @ r4
      in if recs = []
         then [''Content quality is excellent! Focus on promotion and link building.'']
         else recs)"

record QualityScore =
  overall_score :: rat
  readability_score :: rat
  eeat_score :: rat
  seo_score :: rat
  completeness_score :: rat
  grade :: string
  quality_recommendations :: "string list"

definition weighted_overall :: "rat \<Rightarrow> nat \<Rightarrow> nat \<Rightarrow> nat \<Rightarrow> rat" where
  \<comment> \<open>\<open>readability * 0.25 + eeat * 0.30 + seo * 0.25 + completeness * 0.20\<close>, evaluated
      left to right in floating point.\<close>
  "weighted_overall readability eeat seo completeness =
     fadd (fadd (fadd (fmul readability (fl (25 / 100)))
                      (fmul (py_float (int eeat)) (fl (30 / 100))))
                (fmul (py_float (int seo)) (fl (25 / 100))))
          (fmul (py_float (int completeness)) (fl (20 / 100)))"

definition check_content :: "string \<Rightarrow> metadata option \<Rightarrow> QualityScore" where
  "check_content content metadata_arg =
     (let md = (case metadata_arg of None \<Rightarrow> Map.empty | Some m \<Rightarrow> m);
          readability = calculate_readability content;
          eeat = calculate_eeat_score content;
          seo = calculate_seo_score content md;
          completeness = calculate_completeness content md;
          overall = weighted_overall readability eeat seo completeness
      in \<lparr>overall_score = py_round 1 overall,
          readability_score = py_round 1 readability,
          eeat_score = py_round 1 (of_nat eeat),
          seo_score = py_round 1 (of_nat seo),
          completeness_score = py_round 1 (of_nat completeness),
          grade = get_grade overall,
          quality_recommendations =
            generate_recommendations readability eeat seo completeness content md\<rparr>)"

section \<open>Character tables\<close>

text \<open>
  The character classes at the ASCII characters, as rewrite rules for evaluating the
  text functions on concrete inputs.
\<close>

lemma re_word_char_ascii:
  "\<not> re_word_char (CHR 0x09)"
  "\<not> re_word_char (CHR 0x0A)"
  "\<not> re_word_char (CHR 0x0D)"
  "\<not> re_word_char (CHR '' '')"
  "\<not> re_word_char (CHR ''!'')"
  "\<not> re_word_char (CHR 0x22)"
  "\<not> re_word_char (CHR ''#'')"
  "\<not> re_word_char (CHR ''$'')"
  "\<not> re_word_char (CHR ''%'')"
  "\<not> re_word_char (CHR ''&'')"
  "\<not> re_word_char (CHR 0x27)"
  "\<not> re_word_char (CHR ''('')"
  "\<not> re_word_char (CHR '')'')"
  "\<not> re_word_char (CHR ''*'')"
  "\<not> re_word_char (CHR ''+'')"
  "\<not> re_word_char (CHR '','')"
  "\<not> re_word_char (CHR ''-'')"
  "\<not> re_word_char (CHR ''.'')"
  "\<not> re_word_char (CHR ''/'')"
  "re_word_char (CHR ''0'')"
  "re_word_char (CHR ''1'')"
  "re_word_char (CHR ''2'')"
  "re_word_char (CHR ''3'')"
  "re_word_char (CHR ''4'')"
  "re_word_char (CHR ''5'')"
  "re_word_char (CHR ''6'')"
  "re_word_char (CHR ''7'')"
  "re_word_char (CHR ''8'')"
  "re_word_char (CHR ''9'')"
  "\<not> re_word_char (CHR '':'')"
  "\<not> re_word_char (CHR '';'')"
  "\<not> re_word_char (CHR ''<'')"
  "\<not> re_word_char (CHR ''='')"
  "\<not> re_word_char (CHR ''>'')"
  "\<not> re_word_char (CHR ''?'')"
  "\<not> re_word_char (CHR ''@'')"
  "re_word_char (CHR ''A'')"
  "re_word_char (CHR ''B'')"
  "re_word_char (CHR ''C'')"
  "re_word_char (CHR ''D'')"
  "re_word_char (CHR ''E'')"
  "re_word_char (CHR ''F'')"
  "re_word_char (CHR ''G'')"
  "re_word_char (CHR ''H'')"
  "re_word_char (CHR ''I'')"
  "re_word_char (CHR ''J'')"
  "re_word_char (CHR ''K'')"
  "re_word_char (CHR ''L'')"
  "re_word_char (CHR ''M'')"
  "re_word_char (CHR ''N'')"
  "re_word_char (CHR ''O'')"
  "re_word_char (CHR ''P'')"
  "re_word_char (CHR ''Q'')"
  "re_word_char (CHR ''R'')"
  "re_word_char (CHR ''S'')"
  "re_word_char (CHR ''T'')"
  "re_word_char (CHR ''U'')"
  "re_word_char (CHR ''V'')"
  "re_word_char (CHR ''W'')"
  "re_word_char (CHR ''X'')"
  "re_word_char (CHR ''Y'')"
  "re_word_char (CHR ''Z'')"
  "\<not> re_word_char (CHR ''['')"
  "\<not> re_word_char (CHR 0x5C)"
  "\<not> re_word_char (CHR '']'')"
  "\<not> re_word_char (CHR ''^'')"
  "re_word_char (CHR ''_'')"
  "\<not> re_word_char (CHR 0x60)"
  "re_word_char (CHR ''a'')"
  "re_word_char (CHR ''b'')"
  "re_word_char (CHR ''c'')"
  "re_word_char (CHR ''d'')"
  "re_word_char (CHR ''e'')"
  "re_word_char (CHR ''f'')"
  "re_word_char (CHR ''g'')"
  "re_word_char (CHR ''h'')"
  "re_word_char (CHR ''i'')"
  "re_word_char (CHR ''j'')"
  "re_word_char (CHR ''k'')"
  "re_word_char (CHR ''l'')"
  "re_word_char (CHR ''m'')"
  "re_word_char (CHR ''n'')"
  "re_word_char (CHR ''o'')"
  "re_word_char (CHR ''p'')"
  "re_word_char (CHR ''q'')"
  "re_word_char (CHR ''r'')"
  "re_word_char (CHR ''s'')"
  "re_word_char (CHR ''t'')"
  "re_word_char (CHR ''u'')"
  "re_word_char (CHR ''v'')"
  "re_word_char (CHR ''w'')"
  "re_word_char (CHR ''x'')"
  "re_word_char (CHR ''y'')"
  "re_word_char (CHR ''z'')"
  "\<not> re_word_char (CHR ''{'')"
  "\<not> re_word_char (CHR ''|'')"
  "\<not> re_word_char (CHR ''}'')"
  "\<not> re_word_char (CHR ''~'')"
  by (simp_all add: re_word_char_def code_in_def)

lemma py_isspace_ascii:
  "py_isspace (CHR 0x09)"
  "py_isspace (CHR 0x0A)"
  "py_isspace (CHR 0x0D)"
  "py_isspace (CHR '' '')"
  "\<not> py_isspace (CHR ''!'')"
  "\<not> py_isspace (CHR 0x22)"
  "\<not> py_isspace (CHR ''#'')"
  "\<not> py_isspace (CHR ''$'')"
  "\<not> py_isspace (CHR ''%'')"
  "\<not> py_isspace (CHR ''&'')"
  "\<not> py_isspace (CHR 0x27)"
  "\<not> py_isspace (CHR ''('')"
  "\<not> py_isspace (CHR '')'')"
  "\<not> py_isspace (CHR ''*'')"
  "\<not> py_isspace (CHR ''+'')"
  "\<not> py_isspace (CHR '','')"
  "\<not> py_isspace (CHR ''-'')"
  "\<not> py_isspace (CHR ''.'')"
  "\<not> py_isspace (CHR ''/'')"
  "\<not> py_isspace (CHR ''0'')"
  "\<not> py_isspace (CHR ''1'')"
  "\<not> py_isspace (CHR ''2'')"
  "\<not> py_isspace (CHR ''3'')"
  "\<not> py_isspace (CHR ''4'')"
  "\<not> py_isspace (CHR ''5'')"
  "\<not> py_isspace (CHR ''6'')"
  "\<not> py_isspace (CHR ''7'')"
  "\<not> py_isspace (CHR ''8'')"
  "\<not> py_isspace (CHR ''9'')"
  "\<not> py_isspace (CHR '':'')"
  "\<not> py_isspace (CHR '';'')"
  "\<not> py_isspace (CHR ''<'')"
  "\<not> py_isspace (CHR ''='')"
  "\<not> py_isspace (CHR ''>'')"
  "\<not> py_isspace (CHR ''?'')"
  "\<not> py_isspace (CHR ''@'')"
  "\<not> py_isspace (CHR ''A'')"
  "\<not> py_isspace (CHR ''B'')"
  "\<not> py_isspace (CHR ''C'')"
  "\<not> py_isspace (CHR ''D'')"
  "\<not> py_isspace (CHR ''E'')"
  "\<not> py_isspace (CHR ''F'')"
  "\<not> py_isspace (CHR ''G'')"
  "\<not> py_isspace (CHR ''H'')"
  "\<not> py_isspace (CHR ''I'')"
  "\<not> py_isspace (CHR ''J'')"
  "\<not> py_isspace (CHR ''K'')"
  "\<not> py_isspace (CHR ''L'')"
  "\<not> py_isspace (CHR ''M'')"
  "\<not> py_isspace (CHR ''N'')"
  "\<not> py_isspace (CHR ''O'')"
  "\<not> py_isspace (CHR ''P'')"
  "\<not> py_isspace (CHR ''Q'')"
  "\<not> py_isspace (CHR ''R'')"
  "\<not> py_isspace (CHR ''S'')"
  "\<not> py_isspace (CHR ''T'')"
  "\<not> py_isspace (CHR ''U'')"
  "\<not> py_isspace (CHR ''V'')"
  "\<not> py_isspace (CHR ''W'')"
  "\<not> py_isspace (CHR ''X'')"
  "\<not> py_isspace (CHR ''Y'')"
  "\<not> py_isspace (CHR ''Z'')"
  "\<not> py_isspace (CHR ''['')"
  "\<not> py_isspace (CHR 0x5C)"
  "\<not> py_isspace (CHR '']'')"
  "\<not> py_isspace (CHR ''^'')"
  "\<not> py_isspace (CHR ''_'')"
  "\<not> py_isspace (CHR 0x60)"
  "\<not> py_isspace (CHR ''a'')"
  "\<not> py_isspace (CHR ''b'')"
  "\<not> py_isspace (CHR ''c'')"
  "\<not> py_isspace (CHR ''d'')"
  "\<not> py_isspace (CHR ''e'')"
  "\<not> py_isspace (CHR ''f'')"
  "\<not> py_isspace (CHR ''g'')"
  "\<not> py_isspace (CHR ''h'')"
  "\<not> py_isspace (CHR ''i'')"
  "\<not> py_isspace (CHR ''j'')"
  "\<not> py_isspace (CHR ''k'')"
  "\<not> py_isspace (CHR ''l'')"
  "\<not> py_isspace (CHR ''m'')"
  "\<not> py_isspace (CHR ''n'')"
  "\<not> py_isspace (CHR ''o'')"
  "\<not> py_isspace (CHR ''p'')"
  "\<not> py_isspace (CHR ''q'')"
  "\<not> py_isspace (CHR ''r'')"
  "\<not> py_isspace (CHR ''s'')"
  "\<not> py_isspace (CHR ''t'')"
  "\<not> py_isspace (CHR ''u'')"
  "\<not> py_isspace (CHR ''v'')"
  "\<not> py_isspace (CHR ''w'')"
  "\<not> py_isspace (CHR ''x'')"
  "\<not> py_isspace (CHR ''y'')"
  "\<not> py_isspace (CHR ''z'')"
  "\<not> py_isspace (CHR ''{'')"
  "\<not> py_isspace (CHR ''|'')"
  "\<not> py_isspace (CHR ''}'')"
  "\<not> py_isspace (CHR ''~'')"
  by (simp_all add: py_isspace_def code_in_def)

lemma re_digit_ascii:
  "\<not> re_digit (CHR 0x09)"
  "\<not> re_digit (CHR 0x0A)"
  "\<not> re_digit (CHR 0x0D)"
  "\<not> re_digit (CHR '' '')"
  "\<not> re_digit (CHR ''!'')"
  "\<not> re_digit (CHR 0x22)"
  "\<not> re_digit (CHR ''#'')"
  "\<not> re_digit (CHR ''$'')"
  "\<not> re_digit (CHR ''%'')"
  "\<not> re_digit (CHR ''&'')"
  "\<not> re_digit (CHR 0x27)"
  "\<not> re_digit (CHR ''('')"
  "\<not> re_digit (CHR '')'')"
  "\<not> re_digit (CHR ''*'')"
  "\<not> re_digit (CHR ''+'')"
  "\<not> re_digit (CHR '','')"
  "\<not> re_digit (CHR ''-'')"
  "\<not> re_digit (CHR ''.'')"
  "\<not> re_digit (CHR ''/'')"
  "re_digit (CHR ''0'')"
  "re_digit (CHR ''1'')"
  "re_digit (CHR ''2'')"
  "re_digit (CHR ''3'')"
  "re_digit (CHR ''4'')"
  "re_digit (CHR ''5'')"
  "re_digit (CHR ''6'')"
  "re_digit (CHR ''7'')"
  "re_digit (CHR ''8'')"
  "re_digit (CHR ''9'')"
  "\<not> re_digit (CHR '':'')"
  "\<not> re_digit (CHR '';'')"
  "\<not> re_digit (CHR ''<'')"
  "\<not> re_digit (CHR ''='')"
  "\<not> re_digit (CHR ''>'')"
  "\<not> re_digit (CHR ''?'')"
  "\<not> re_digit (CHR ''@'')"
  "\<not> re_digit (CHR ''A'')"
  "\<not> re_digit (CHR ''B'')"
  "\<not> re_digit (CHR ''C'')"
  "\<not> re_digit (CHR ''D'')"
  "\<not> re_digit (CHR ''E'')"
  "\<not> re_digit (CHR ''F'')"
  "\<not> re_digit (CHR ''G'')"
  "\<not> re_digit (CHR ''H'')"
  "\<not> re_digit (CHR ''I'')"
  "\<not> re_digit (CHR ''J'')"
  "\<not> re_digit (CHR ''K'')"
  "\<not> re_digit (CHR ''L'')"
  "\<not> re_digit (CHR ''M'')"
  "\<not> re_digit (CHR ''N'')"
  "\<not> re_digit (CHR ''O'')"
  "\<not> re_digit (CHR ''P'')"
  "\<not> re_digit (CHR ''Q'')"
  "\<not> re_digit (CHR ''R'')"
  "\<not> re_digit (CHR ''S'')"
  "\<not> re_digit (CHR ''T'')"
  "\<not> re_digit (CHR ''U'')"
  "\<not> re_digit (CHR ''V'')"
  "\<not> re_digit (CHR ''W'')"
  "\<not> re_digit (CHR ''X'')"
  "\<not> re_digit (CHR ''Y'')"
  "\<not> re_digit (CHR ''Z'')"
  "\<not> re_digit (CHR ''['')"
  "\<not> re_digit (CHR 0x5C)"
  "\<not> re_digit (CHR '']'')"
  "\<not> re_digit (CHR ''^'')"
  "\<not> re_digit (CHR ''_'')"
  "\<not> re_digit (CHR 0x60)"
  "\<not> re_digit (CHR ''a'')"
  "\<not> re_digit (CHR ''b'')"
  "\<not> re_digit (CHR ''c'')"
  "\<not> re_digit (CHR ''d'')"
  "\<not> re_digit (CHR ''e'')"
  "\<not> re_digit (CHR ''f'')"
  "\<not> re_digit (CHR ''g'')"
  "\<not> re_digit (CHR ''h'')"
  "\<not> re_digit (CHR ''i'')"
  "\<not> re_digit (CHR ''j'')"
  "\<not> re_digit (CHR ''k'')"
  "\<not> re_digit (CHR ''l'')"
  "\<not> re_digit (CHR ''m'')"
  "\<not> re_digit (CHR ''n'')"
  "\<not> re_digit (CHR ''o'')"
  "\<not> re_digit (CHR ''p'')"
  "\<not> re_digit (CHR ''q'')"
  "\<not> re_digit (CHR ''r'')"
  "\<not> re_digit (CHR ''s'')"
  "\<not> re_digit (CHR ''t'')"
  "\<not> re_digit (CHR ''u'')"
  "\<not> re_digit (CHR ''v'')"
  "\<not> re_digit (CHR ''w'')"
  "\<not> re_digit (CHR ''x'')"
  "\<not> re_digit (CHR ''y'')"
  "\<not> re_digit (CHR ''z'')"
  "\<not> re_digit (CHR ''{'')"
  "\<not> re_digit (CHR ''|'')"
  "\<not> re_digit (CHR ''}'')"
  "\<not> re_digit (CHR ''~'')"
  by (simp_all add: re_digit_def code_in_def)

lemma ascii_alpha_ascii:
  "\<not> ascii_alpha (CHR 0x09)"
  "\<not> ascii_alpha (CHR 0x0A)"
  "\<not> ascii_alpha (CHR 0x0D)"
  "\<not> ascii_alpha (CHR '' '')"
  "\<not> ascii_alpha (CHR ''!'')"
  "\<not> ascii_alpha (CHR 0x22)"
  "\<not> ascii_alpha (CHR ''#'')"
  "\<not> ascii_alpha (CHR ''$'')"
  "\<not> ascii_alpha (CHR ''%'')"
  "\<not> ascii_alpha (CHR ''&'')"
  "\<not> ascii_alpha (CHR 0x27)"
  "\<not> ascii_alpha (CHR ''('')"
  "\<not> ascii_alpha (CHR '')'')"
  "\<not> ascii_alpha (CHR ''*'')"
  "\<not> ascii_alpha (CHR ''+'')"
  "\<not> ascii_alpha (CHR '','')"
  "\<not> ascii_alpha (CHR ''-'')"
  "\<not> ascii_alpha (CHR ''.'')"
  "\<not> ascii_alpha (CHR ''/'')"
  "\<not> ascii_alpha (CHR ''0'')"
  "\<not> ascii_alpha (CHR ''1'')"
  "\<not> ascii_alpha (CHR ''2'')"
  "\<not> ascii_alpha (CHR ''3'')"
  "\<not> ascii_alpha (CHR ''4'')"
  "\<not> ascii_alpha (CHR ''5'')"
  "\<not> ascii_alpha (CHR ''6'')"
  "\<not> ascii_alpha (CHR ''7'')"
  "\<not> ascii_alpha (CHR ''8'')"
  "\<not> ascii_alpha (CHR ''9'')"
  "\<not> ascii_alpha (CHR '':'')"
  "\<not> ascii_alpha (CHR '';'')"
  "\<not> ascii_alpha (CHR ''<'')"
  "\<not> ascii_alpha (CHR ''='')"
  "\<not> ascii_alpha (CHR ''>'')"
  "\<not> ascii_alpha (CHR ''?'')"
  "\<not> ascii_alpha (CHR ''@'')"
  "ascii_alpha (CHR ''A'')"
  "ascii_alpha (CHR ''B'')"
  "ascii_alpha (CHR ''C'')"
  "ascii_alpha (CHR ''D'')"
  "ascii_alpha (CHR ''E'')"
  "ascii_alpha (CHR ''F'')"
  "ascii_alpha (CHR ''G'')"
  "ascii_alpha (CHR ''H'')"
  "ascii_alpha (CHR ''I'')"
  "ascii_alpha (CHR ''J'')"
  "ascii_alpha (CHR ''K'')"
  "ascii_alpha (CHR ''L'')"
  "ascii_alpha (CHR ''M'')"
  "ascii_alpha (CHR ''N'')"
  "ascii_alpha (CHR ''O'')"
  "ascii_alpha (CHR ''P'')"
  "ascii_alpha (CHR ''Q'')"
  "ascii_alpha (CHR ''R'')"
  "ascii_alpha (CHR ''S'')"
  "ascii_alpha (CHR ''T'')"
  "ascii_alpha (CHR ''U'')"
  "ascii_alpha (CHR ''V'')"
  "ascii_alpha (CHR ''W'')"
  "ascii_alpha (CHR ''X'')"
  "ascii_alpha (CHR ''Y'')"
  "ascii_alpha (CHR ''Z'')"
  "\<not> ascii_alpha (CHR ''['')"
  "\<not> ascii_alpha (CHR 0x5C)"
  "\<not> ascii_alpha (CHR '']'')"
  "\<not> ascii_alpha (CHR ''^'')"
  "\<not> ascii_alpha (CHR ''_'')"
  "\<not> ascii_alpha (CHR 0x60)"
  "ascii_alpha (CHR ''a'')"
  "ascii_alpha (CHR ''b'')"
  "ascii_alpha (CHR ''c'')"
  "ascii_alpha (CHR ''d'')"
  "ascii_alpha (CHR ''e'')"
  "ascii_alpha (CHR ''f'')"
  "ascii_alpha (CHR ''g'')"
  "ascii_alpha (CHR ''h'')"
  "ascii_alpha (CHR ''i'')"
  "ascii_alpha (CHR ''j'')"
  "ascii_alpha (CHR ''k'')"
  "ascii_alpha (CHR ''l'')"
  "ascii_alpha (CHR ''m'')"
  "ascii_alpha (CHR ''n'')"
  "ascii_alpha (CHR ''o'')"
  "ascii_alpha (CHR ''p'')"
  "ascii_alpha (CHR ''q'')"
  "ascii_alpha (CHR ''r'')"
  "ascii_alpha (CHR ''s'')"
  "ascii_alpha (CHR ''t'')"
  "ascii_alpha (CHR ''u'')"
  "ascii_alpha (CHR ''v'')"
  "ascii_alpha (CHR ''w'')"
  "ascii_alpha (CHR ''x'')"
  "ascii_alpha (CHR ''y'')"
  "ascii_alpha (CHR ''z'')"
  "\<not> ascii_alpha (CHR ''{'')"
  "\<not> ascii_alpha (CHR ''|'')"
  "\<not> ascii_alpha (CHR ''}'')"
  "\<not> ascii_alpha (CHR ''~'')"
  by (simp_all add: ascii_alpha_def code_in_def)

lemma py_lower_char_ascii:
  "py_lower_char (CHR 0x09) = CHR 0x09"
  "py_lower_char (CHR 0x0A) = CHR 0x0A"
  "py_lower_char (CHR 0x0D) = CHR 0x0D"
  "py_lower_char (CHR '' '') = CHR '' ''"
  "py_lower_char (CHR ''!'') = CHR ''!''"
  "py_lower_char (CHR 0x22) = CHR 0x22"
  "py_lower_char (CHR ''#'') = CHR ''#''"
  "py_lower_char (CHR ''$'') = CHR ''$''"
  "py_lower_char (CHR ''%'') = CHR ''%''"
  "py_lower_char (CHR ''&'') = CHR ''&''"
  "py_lower_char (CHR 0x27) = CHR 0x27"
  "py_lower_char (CHR ''('') = CHR ''(''"
  "py_lower_char (CHR '')'') = CHR '')''"
  "py_lower_char (CHR ''*'') = CHR ''*''"
  "py_lower_char (CHR ''+'') = CHR ''+''"
  "py_lower_char (CHR '','') = CHR '',''"
  "py_lower_char (CHR ''-'') = CHR ''-''"
  "py_lower_char (CHR ''.'') = CHR ''.''"
  "py_lower_char (CHR ''/'') = CHR ''/''"
  "py_lower_char (CHR ''0'') = CHR ''0''"
  "py_lower_char (CHR ''1'') = CHR ''1''"
  "py_lower_char (CHR ''2'') = CHR ''2''"
  "py_lower_char (CHR ''3'') = CHR ''3''"
  "py_lower_char (CHR ''4'') = CHR ''4''"
  "py_lower_char (CHR ''5'') = CHR ''5''"
  "py_lower_char (CHR ''6'') = CHR ''6''"
  "py_lower_char (CHR ''7'') = CHR ''7''"
  "py_lower_char (CHR ''8'') = CHR ''8''"
  "py_lower_char (CHR ''9'') = CHR ''9''"
  "py_lower_char (CHR '':'') = CHR '':''"
  "py_lower_char (CHR '';'') = CHR '';''"
  "py_lower_char (CHR ''<'') = CHR ''<''"
  "py_lower_char (CHR ''='') = CHR ''=''"
  "py_lower_char (CHR ''>'') = CHR ''>''"
  "py_lower_char (CHR ''?'') = CHR ''?''"
  "py_lower_char (CHR ''@'') = CHR ''@''"
  "py_lower_char (CHR ''A'') = CHR ''a''"
  "py_lower_char (CHR ''B'') = CHR ''b''"
  "py_lower_char (CHR ''C'') = CHR ''c''"
  "py_lower_char (CHR ''D'') = CHR ''d''"
  "py_lower_char (CHR ''E'') = CHR ''e''"
  "py_lower_char (CHR ''F'') = CHR ''f''"
  "py_lower_char (CHR ''G'') = CHR ''g''"
  "py_lower_char (CHR ''H'') = CHR ''h''"
  "py_lower_char (CHR ''I'') = CHR ''i''"
  "py_lower_char (CHR ''J'') = CHR ''j''"
  "py_lower_char (CHR ''K'') = CHR ''k''"
  "py_lower_char (CHR ''L'') = CHR ''l''"
  "py_lower_char (CHR ''M'') = CHR ''m''"
  "py_lower_char (CHR ''N'') = CHR ''n''"
  "py_lower_char (CHR ''O'') = CHR ''o''"
  "py_lower_char (CHR ''P'') = CHR ''p''"
  "py_lower_char (CHR ''Q'') = CHR ''q''"
  "py_lower_char (CHR ''R'') = CHR ''r''"
  "py_lower_char (CHR ''S'') = CHR ''s''"
  "py_lower_char (CHR ''T'') = CHR ''t''"
  "py_lower_char (CHR ''U'') = CHR ''u''"
  "py_lower_char (CHR ''V'') = CHR ''v''"
  "py_lower_char (CHR ''W'') = CHR ''w''"
  "py_lower_char (CHR ''X'') = CHR ''x''"
  "py_lower_char (CHR ''Y'') = CHR ''y''"
  "py_lower_char (CHR ''Z'') = CHR ''z''"
  "py_lower_char (CHR ''['') = CHR ''[''"
  "py_lower_char (CHR 0x5C) = CHR 0x5C"
  "py_lower_char (CHR '']'') = CHR '']''"
  "py_lower_char (CHR ''^'') = CHR ''^''"
  "py_lower_char (CHR ''_'') = CHR ''_''"
  "py_lower_char (CHR 0x60) = CHR 0x60"
  "py_lower_char (CHR ''a'') = CHR ''a''"
  "py_lower_char (CHR ''b'') = CHR ''b''"
  "py_lower_char (CHR ''c'') = CHR ''c''"
  "py_lower_char (CHR ''d'') = CHR ''d''"
  "py_lower_char (CHR ''e'') = CHR ''e''"
  "py_lower_char (CHR ''f'') = CHR ''f''"
  "py_lower_char (CHR ''g'') = CHR ''g''"
  "py_lower_char (CHR ''h'') = CHR ''h''"
  "py_lower_char (CHR ''i'') = CHR ''i''"
  "py_lower_char (CHR ''j'') = CHR ''j''"
  "py_lower_char (CHR ''k'') = CHR ''k''"
  "py_lower_char (CHR ''l'') = CHR ''l''"
  "py_lower_char (CHR ''m'') = CHR ''m''"
  "py_lower_char (CHR ''n'') = CHR ''n''"
  "py_lower_char (CHR ''o'') = CHR ''o''"
  "py_lower_char (CHR ''p'') = CHR ''p''"
  "py_lower_char (CHR ''q'') = CHR ''q''"
  "py_lower_char (CHR ''r'') = CHR ''r''"
  "py_lower_char (CHR ''s'') = CHR ''s''"
  "py_lower_char (CHR ''t'') = CHR ''t''"
  "py_lower_char (CHR ''u'') = CHR ''u''"
  "py_lower_char (CHR ''v'') = CHR ''v''"
  "py_lower_char (CHR ''w'') = CHR ''w''"
  "py_lower_char (CHR ''x'') = CHR ''x''"
  "py_lower_char (CHR ''y'') = CHR ''y''"
  "py_lower_char (CHR ''z'') = CHR ''z''"
  "py_lower_char (CHR ''{'') = CHR ''{''"
  "py_lower_char (CHR ''|'') = CHR ''|''"
  "py_lower_char (CHR ''}'') = CHR ''}''"
  "py_lower_char (CHR ''~'') = CHR ''~''"
  by code_simp+

lemmas char_tables =
  re_word_char_ascii py_isspace_ascii re_digit_ascii ascii_alpha_ascii py_lower_char_ascii

section \<open>Properties of the topic cluster generator\<close>

subsection \<open>Cluster-to-cluster links\<close>

lemma map_enumerate_nth:
  "map f (enumerate 0 xs) = map (\<lambda>i. f (i, xs ! i)) [0..<length xs]"
  by (rule nth_equalityI) (simp_all add: nth_enumerate_eq)

lemma py_slice_window:
  "py_slice cs (i + 1) (i + 3) = map ((!) cs) (filter (\<lambda>j. j < length cs) [i + 1, i + 2])"
proof -
  have "take 2 (drop (Suc i) cs) =
          map ((!) cs) (filter (\<lambda>j. j < length cs) [Suc i, Suc (Suc i)])"
  proof (cases "Suc (Suc i) < length cs")
    case True
    then show ?thesis
      by (simp add: numeral_2_eq_2 take_Suc_conv_app_nth)
  next
    case short: False
    show ?thesis
    proof (cases "Suc i < length cs")
      case True
      with short have "length (drop (Suc i) cs) = 1" by simp
      then obtain x where x: "drop (Suc i) cs = [x]"
        by (cases "drop (Suc i) cs") auto
      from True have "drop (Suc i) cs ! 0 = cs ! Suc i" by simp
      with x have "x = cs ! Suc i" by simp
      with x True short show ?thesis by simp
    next
      case False
      then show ?thesis by simp
    qed
  qed
  then show ?thesis by (simp add: py_slice_def numeral_3_eq_3)
qed

lemma cluster_links_eq:
  "cluster_to_cluster (generate_internal_linking_strategy p) =
     forward_window_distinct_edges (pp_clusters p)"
proof -
  let ?cs = "pp_clusters p"
  have inner:
    "concat (map (\<lambda>cluster2. if c \<noteq> cluster2 then [related_link c cluster2] else [])
               (py_slice ?cs (i + 1) (i + 3))) =
     concat (map (\<lambda>j. if j < length ?cs
                        then (if c \<noteq> ?cs ! j then [related_link c (?cs ! j)] else [])
                        else [])
               [i + 1, i + 2])" for c i
    unfolding py_slice_window by simp
  show ?thesis
    unfolding generate_internal_linking_strategy_def forward_window_distinct_edges_def
    by (simp only: linking_strategy.simps map_enumerate_nth prod.case inner)
qed

lemma forward_window_distinct:
  assumes "distinct cs"
  shows "forward_window_distinct_edges cs = forward_window_edges cs"
proof -
  have "(if j < length cs
         then (if cs ! i \<noteq> cs ! j then [related_link (cs ! i) (cs ! j)] else [])
         else []) =
        (if j < length cs then [related_link (cs ! i) (cs ! j)] else [])"
    if "i < j" for i j
    using that assms by (auto simp: nth_eq_iff_index_eq)
  then show ?thesis
    unfolding forward_window_distinct_edges_def forward_window_edges_def
    by simp
qed

text \<open>
  Claim C1, as stated: the cluster-to-cluster edges are exactly the forward-two-window
  edges, also when clusters are equal by value. The source skips a pair whose two
  clusters compare equal (\<open>if cluster1 != cluster2\<close>, dataclass equality), so a pillar
  holding the same cluster twice gets no edge between the two copies, where the claim
  asks for one.
\<close>

theorem cluster_to_cluster_equal_clusters_counterexample:
  "cluster_to_cluster (generate_internal_linking_strategy
      (example_pillar [example_cluster ''A'', example_cluster ''A''])) = [] \<and>
   forward_window_edges [example_cluster ''A'', example_cluster ''A''] =
     [related_link (example_cluster ''A'') (example_cluster ''A'')]"
  by code_simp

text \<open>
  Claim C1, amended: for every pillar page the cluster-to-cluster edge list holds, in
  list order, one edge from position \<open>i\<close> to each of the positions \<open>i + 1\<close> and \<open>i + 2\<close>
  that exist and whose cluster differs by value from the one at \<open>i\<close>, and no other edge;
  when the clusters are pairwise different this is exactly the forward-two-window list,
  which for \<open>[c0, c1, c2, c3]\<close> is \<open>c0\<rightarrow>c1, c0\<rightarrow>c2, c1\<rightarrow>c2, c1\<rightarrow>c3, c2\<rightarrow>c3\<close>.
\<close>

theorem cluster_to_cluster_forward_window:
  "cluster_to_cluster (generate_internal_linking_strategy p) =
     forward_window_distinct_edges (pp_clusters p) \<and>
   (distinct (pp_clusters p) \<longrightarrow>
      cluster_to_cluster (generate_internal_linking_strategy p) =
        forward_window_edges (pp_clusters p))"
  using cluster_links_eq [of p] forward_window_distinct [of "pp_clusters p"] by simp

theorem cluster_to_cluster_forward_window_witness:
  "distinct [example_cluster ''A'', example_cluster ''B'', example_cluster ''C'',
             example_cluster ''D''] \<and>
   cluster_to_cluster (generate_internal_linking_strategy
      (example_pillar [example_cluster ''A'', example_cluster ''B'', example_cluster ''C'',
                       example_cluster ''D''])) =
     [related_link (example_cluster ''A'') (example_cluster ''B''),
      related_link (example_cluster ''A'') (example_cluster ''C''),
      related_link (example_cluster ''B'') (example_cluster ''C''),
      related_link (example_cluster ''B'') (example_cluster ''D''),
      related_link (example_cluster ''C'') (example_cluster ''D'')]"
proof -
  let ?cs = "[example_cluster ''A'', example_cluster ''B'', example_cluster ''C'',
              example_cluster ''D'']"
  have cs: "pp_clusters (example_pillar ?cs) = ?cs"
    by (simp add: example_pillar_def new_PillarPage_def)
  have d: "distinct ?cs" by code_simp
  have "cluster_to_cluster (generate_internal_linking_strategy (example_pillar ?cs)) =
          forward_window_edges ?cs"
    using cluster_to_cluster_forward_window [of "example_pillar ?cs"] d unfolding cs by blast
  also have "\<dots> =
     [related_link (example_cluster ''A'') (example_cluster ''B''),
      related_link (example_cluster ''A'') (example_cluster ''C''),
      related_link (example_cluster ''B'') (example_cluster ''C''),
      related_link (example_cluster ''B'') (example_cluster ''D''),
      related_link (example_cluster ''C'') (example_cluster ''D'')]"
    by code_simp
  finally show ?thesis using d by simp
qed

subsection \<open>Cluster ideas\<close>

lemma foldl_append_map: "foldl (\<lambda>acc t. acc @ [f t]) a xs = a @ map f xs"
  by (induction xs arbitrary: a) simp_all

lemma selected_templates_lookup:
  "(case SUBTOPIC_TEMPLATES tt of Some ts \<Rightarrow> ts | None \<Rightarrow> guide_templates) =
     selected_templates tt"
  by (simp add: SUBTOPIC_TEMPLATES_def selected_templates_def)

lemma length_selected_templates: "length (selected_templates tt) = 10"
  by (simp add: selected_templates_def guide_templates_def product_templates_def
      service_templates_def)

lemma generate_cluster_ideas_slice:
  "generate_cluster_ideas topic tt count =
     map (\<lambda>t. format_topic t topic) (py_slice_to (selected_templates tt) count)"
  by (simp add: generate_cluster_ideas_def selected_templates_lookup foldl_append_map)

text \<open>
  Claim C9, as stated: for every count the result is the first
  \<open>min(count, length)\<close> templates. The source slices \<open>templates[:count]\<close>, and a negative
  bound of a Python slice counts from the end: with \<open>count = -1\<close> the guide list yields
  nine ideas, where the first \<open>min(-1, 10)\<close> templates are none.
\<close>

theorem generate_cluster_ideas_negative_count_counterexample:
  "generate_cluster_ideas ''coffee'' ''guide'' (- 1) =
     [''What is coffee'', ''How to coffee'', ''coffee for beginners'',
      ''coffee best practices'', ''coffee tips and tricks'',
      ''coffee tools and resources'', ''coffee examples'',
      ''coffee mistakes to avoid'', ''coffee checklist''] \<and>
   take (nat (min (- 1) (int (length (selected_templates ''guide'')))))
     (selected_templates ''guide'') = []"
  by code_simp

text \<open>
  Claim C9, amended: for every topic, template type and count that is not negative,
  \<open>generate_cluster_ideas\<close> returns the first \<open>min(count, 10)\<close> templates of the selected
  list (guide for an unknown type) in list order, each formatted with the topic; for a
  negative count it returns the templates up to the last \<open>-count\<close> ones, formatted the
  same way. In particular the call with "coffee", "guide" and 5 returns five strings.
\<close>

theorem generate_cluster_ideas_first_templates:
  "(0 \<le> count \<longrightarrow>
      generate_cluster_ideas topic tt count =
        map (\<lambda>t. format_topic t topic)
          (take (min (nat count) (length (selected_templates tt))) (selected_templates tt))) \<and>
   (count < 0 \<longrightarrow>
      generate_cluster_ideas topic tt count =
        map (\<lambda>t. format_topic t topic)
          (take (length (selected_templates tt) - nat (- count)) (selected_templates tt)))"
proof -
  have "nat (int (length (selected_templates tt)) + count) =
          length (selected_templates tt) - nat (- count)"
    if "count < 0" using that by linarith
  then show ?thesis
    by (simp add: generate_cluster_ideas_slice py_slice_to_def min_def)
qed

theorem generate_cluster_ideas_first_templates_witness:
  "(0::int) \<le> 5 \<and>
   generate_cluster_ideas ''coffee'' ''guide'' 5 =
     [''What is coffee'', ''How to coffee'', ''coffee for beginners'',
      ''coffee best practices'', ''coffee tips and tricks''] \<and>
   length (generate_cluster_ideas ''coffee'' ''guide'' 5) = 5"
proof -
  have "generate_cluster_ideas ''coffee'' ''guide'' 5 =
          map (\<lambda>t. format_topic t ''coffee'')
            (take (min (nat 5) (length (selected_templates ''guide'')))
               (selected_templates ''guide''))"
    using generate_cluster_ideas_first_templates [of 5 "''coffee''" "''guide''"] by simp
  also have "\<dots> =
     [''What is coffee'', ''How to coffee'', ''coffee for beginners'',
      ''coffee best practices'', ''coffee tips and tricks'']"
    by code_simp
  finally show ?thesis by simp
qed

subsection \<open>JSON export\<close>

text \<open>
  Claim C6, as stated: every field value of every cluster can be read back from the
  export. The cluster objects of the export carry six of the seven fields of
  ClusterContent; \<open>content_type\<close> is not written. Two pillars that differ only in the
  content type of a cluster have the same export, so no parse of it tells them apart.
\<close>

theorem export_json_content_type_counterexample:
  "export_json (example_pillar [example_cluster ''A'']) =
     export_json (example_pillar [(example_cluster ''A'')\<lparr>cc_content_type := ''video''\<rparr>]) \<and>
   cc_content_type (example_cluster ''A'') = ''blog_post'' \<and>
   map read_cluster (json_items (json_get
       (export_json (example_pillar [(example_cluster ''A'')\<lparr>cc_content_type := ''video''\<rparr>]))
       ''clusters'')) \<noteq>
     map all_fields [(example_cluster ''A'')\<lparr>cc_content_type := ''video''\<rparr>]"
  by code_simp

text \<open>
  Claim C6, amended: for every pillar page, the parsed JSON export holds the pillar's
  title, target keyword, description, word count and URL slug, and one object per
  cluster, in list order, holding the cluster's title, target keyword, search volume,
  difficulty, word count and URL slug, each equal to the value in memory; the cluster's
  content type is not part of the export.
\<close>

theorem export_json_round_trip:
  "json_str (json_get (the (json_get (export_json p) ''pillar'')) ''title'') =
     Some (pp_title p) \<and>
   json_str (json_get (the (json_get (export_json p) ''pillar'')) ''target_keyword'') =
     Some (pp_target_keyword p) \<and>
   json_str (json_get (the (json_get (export_json p) ''pillar'')) ''description'') =
     Some (pp_description p) \<and>
   json_int (json_get (the (json_get (export_json p) ''pillar'')) ''word_count'') =
     Some (pp_word_count p) \<and>
   json_str (json_get (the (json_get (export_json p) ''pillar'')) ''url_slug'') =
     Some (pp_url_slug p) \<and>
   map read_cluster (json_items (json_get (export_json p) ''clusters'')) =
     map exported_fields (pp_clusters p)"
  by (simp add: export_json_def read_cluster_def exported_fields_def all_fields_def)

section \<open>Properties of the user intent analyzer\<close>

lemma py_max_by_first_max:
  "\<exists>pre post. x # xs = pre @ [py_max_by key x xs] @ post \<and>
     (\<forall>z \<in> set pre. key z < key (py_max_by key x xs)) \<and>
     (\<forall>z \<in> set post. key z \<le> key (py_max_by key x xs))"
proof (induction xs arbitrary: x)
  case Nil
  show ?case by (rule exI [of _ "[]"], rule exI [of _ "[]"]) simp
next
  case (Cons y ys)
  show ?case
  proof (cases "key x < key y")
    case True
    from Cons.IH [of y] obtain pre post where
      split: "y # ys = pre @ [py_max_by key y ys] @ post" and
      pre: "\<forall>z \<in> set pre. key z < key (py_max_by key y ys)" and
      post: "\<forall>z \<in> set post. key z \<le> key (py_max_by key y ys)"
      by blast
    have "key y \<le> key (py_max_by key y ys)"
    proof (cases pre)
      case Nil
      from split [unfolded Nil] have "y # ys = py_max_by key y ys # post"
        by (simp only: append_Nil append_Cons)
      then have "y = py_max_by key y ys" by (rule list.inject [THEN iffD1, THEN conjunct1])
      then have "key y = key (py_max_by key y ys)" by (rule arg_cong)
      then show ?thesis by (rule order_eq_refl)
    next
      case (Cons p ps)
      with split have "p = y" by simp
      with Cons pre show ?thesis by auto
    qed
    with True have x: "key x < key (py_max_by key y ys)" by simp
    have R: "py_max_by key x (y # ys) = py_max_by key y ys"
      using True by simp
    show ?thesis unfolding R
    proof (intro exI conjI)
      show "x # y # ys = (x # pre) @ [py_max_by key y ys] @ post"
        using split by simp
      show "\<forall>z \<in> set (x # pre). key z < key (py_max_by key y ys)"
        using x pre by simp
      show "\<forall>z \<in> set post. key z \<le> key (py_max_by key y ys)"
        by (rule post)
    qed
  next
    case False
    from Cons.IH [of x] obtain pre post where
      split: "x # ys = pre @ [py_max_by key x ys] @ post" and
      pre: "\<forall>z \<in> set pre. key z < key (py_max_by key x ys)" and
      post: "\<forall>z \<in> set post. key z \<le> key (py_max_by key x ys)"
      by blast
    have R: "py_max_by key x (y # ys) = py_max_by key x ys"
      using False by simp
    show ?thesis
    proof (cases pre)
      case Nil
      from split [unfolded Nil] have "x # ys = py_max_by key x ys # post"
        by (simp only: append_Nil append_Cons)
      then have r: "x = py_max_by key x ys" and ys: "ys = post"
        by (rule list.inject [THEN iffD1, THEN conjunct1],
            rule list.inject [THEN iffD1, THEN conjunct2])
      have kr: "key (py_max_by key x ys) = key x"
        by (rule arg_cong [OF r [symmetric]])
      show ?thesis unfolding R
      proof (intro exI conjI)
        have "x # y # ys = py_max_by key x ys # y # ys"
          by (rule arg_cong [where f = "\<lambda>v. v # y # ys", OF r])
        then show "x # y # ys = [] @ [py_max_by key x ys] @ (y # ys)"
          by (simp only: append_Nil append_Cons)
        show "\<forall>z \<in> set []. key z < key (py_max_by key x ys)" by simp
        show "\<forall>z \<in> set (y # ys). key z \<le> key (py_max_by key x ys)"
          unfolding kr using post False ys kr by auto
      qed
    next
      case (Cons p ps)
      from split [unfolded Cons] have "x # ys = p # (ps @ [py_max_by key x ys] @ post)"
        by (simp only: append_Nil append_Cons)
      then have p: "x = p" and ys: "ys = ps @ [py_max_by key x ys] @ post"
        by (rule list.inject [THEN iffD1, THEN conjunct1],
            rule list.inject [THEN iffD1, THEN conjunct2])
      from pre Cons p have "key x < key (py_max_by key x ys)" by simp
      with False have y: "key y < key (py_max_by key x ys)" by simp
      show ?thesis unfolding R
      proof (intro exI conjI)
        have "x # y # ys = x # y # (ps @ [py_max_by key x ys] @ post)"
          by (rule arg_cong [where f = "\<lambda>v. x # y # v", OF ys])
        then show "x # y # ys = (x # y # ps) @ [py_max_by key x ys] @ post"
          by (simp only: append_Cons)
        show "\<forall>z \<in> set (x # y # ps). key z < key (py_max_by key x ys)"
          using pre Cons p y by auto
        show "\<forall>z \<in> set post. key z \<le> key (py_max_by key x ys)"
          by (rule post)
      qed
    qed
  qed
qed

lemma py_max_by_id_Max: "py_max_by id x xs = Max (set (x # xs))"
proof (induction xs arbitrary: x)
  case Nil
  show ?case by simp
next
  case (Cons y ys)
  have "py_max_by id x (y # ys) = py_max_by id (max x y) ys"
    by (simp add: max_def)
  also have "\<dots> = Max (set (max x y # ys))" by (rule Cons.IH)
  also have "\<dots> = Max (set (x # y # ys))"
    by (cases "ys = []") (simp_all add: max.assoc)
  finally show ?case .
qed


lemma analyze_query_scores:
  "intent_scores (analyze_query q) = map (score_item (py_strip (py_lower q))) intents"
  by (simp add: analyze_query_def Let_def split: prod.splits)

lemma analyze_query_matched:
  assumes "\<not> list_all (\<lambda>(intent, score). score = 0) (intent_scores (analyze_query q))"
  shows "primary_intent (analyze_query q) =
           fst (py_max_by snd (score_item (py_strip (py_lower q)) first_intent)
                  (map (score_item (py_strip (py_lower q))) other_intents))"
    and "confidence (analyze_query q) =
           py_round 2
             (if 0 < sum_list (map snd (intent_scores (analyze_query q)))
              then fdiv (of_nat (py_max_by id (snd (score_item (py_strip (py_lower q)) first_intent))
                                   (map (\<lambda>i. snd (score_item (py_strip (py_lower q)) i)) other_intents)))
                     (of_nat (sum_list (map snd (intent_scores (analyze_query q)))))
              else fl (5 / 10))"
  using assms unfolding analyze_query_scores
  by (auto simp: analyze_query_def Let_def list_all_iff case_prod_beta split: prod.splits)

lemma analyze_query_unmatched:
  assumes "list_all (\<lambda>(intent, score). score = 0) (intent_scores (analyze_query q))"
  shows "primary_intent (analyze_query q) = fst (apply_heuristics (py_strip (py_lower q)))"
    and "confidence (analyze_query q) = py_round 2 (snd (apply_heuristics (py_strip (py_lower q))))"
  using assms unfolding analyze_query_scores
  by (auto simp: analyze_query_def Let_def list_all_iff case_prod_beta split: prod.splits)

lemma startswith_append:
  "py_startswith s p \<Longrightarrow> s = p @ drop (length p) s"
  by (induction s p rule: py_startswith.induct) (auto split: if_splits)

lemmas intent_eval =
  pattern_search_def word_match_def re_boundary_def matches_def score_item_def
  INFORMATIONAL_MODIFIERS_def NAVIGATIONAL_MODIFIERS_def COMMERCIAL_MODIFIERS_def
  TRANSACTIONAL_MODIFIERS_def intents_def first_intent_def other_intents_def
  pattern_text_def re_escape_def py_strip_chars_def py_lower_def py_strip_def
  apply_heuristics_def starts_with_interrogative_def

lemma interrogative_found:
  "py_startswith s ''how '' \<Longrightarrow> pattern_search ''how'' s"
  "py_startswith s ''what '' \<Longrightarrow> pattern_search ''what'' s"
  "py_startswith s ''why '' \<Longrightarrow> pattern_search ''why'' s"
  "py_startswith s ''when '' \<Longrightarrow> pattern_search ''when'' s"
  "py_startswith s ''where '' \<Longrightarrow> pattern_search ''where'' s"
proof -
  show "pattern_search ''how'' s" if "py_startswith s ''how ''"
    by (subst startswith_append [OF that])
       (simp add: pattern_search_def word_match_def re_boundary_def char_tables)
  show "pattern_search ''what'' s" if "py_startswith s ''what ''"
    by (subst startswith_append [OF that])
       (simp add: pattern_search_def word_match_def re_boundary_def char_tables)
  show "pattern_search ''why'' s" if "py_startswith s ''why ''"
    by (subst startswith_append [OF that])
       (simp add: pattern_search_def word_match_def re_boundary_def char_tables)
  show "pattern_search ''when'' s" if "py_startswith s ''when ''"
    by (subst startswith_append [OF that])
       (simp add: pattern_search_def word_match_def re_boundary_def char_tables)
  show "pattern_search ''where'' s" if "py_startswith s ''where ''"
    by (subst startswith_append [OF that])
       (simp add: pattern_search_def word_match_def re_boundary_def char_tables)
qed

lemma no_informational_match:
  assumes "list_all (\<lambda>(intent, score). score = 0) (intent_scores (analyze_query q))"
    and "m \<in> set INFORMATIONAL_MODIFIERS"
  shows "\<not> pattern_search m (py_strip (py_lower q))"
proof -
  from assms(1) have "snd (score_item (py_strip (py_lower q)) INFORMATIONAL) = 0"
    unfolding analyze_query_scores
    by (simp add: intents_def first_intent_def case_prod_beta)
  then have "filter (\<lambda>m. pattern_search m (py_strip (py_lower q))) INFORMATIONAL_MODIFIERS = []"
    by (simp add: score_item_def matches_def)
  with assms(2) show ?thesis
    by (simp add: filter_empty_conv)
qed

lemma unmatched_not_interrogative:
  assumes "list_all (\<lambda>(intent, score). score = 0) (intent_scores (analyze_query q))"
  shows "\<not> starts_with_interrogative (py_strip (py_lower q))"
proof -
  have "\<not> pattern_search m (py_strip (py_lower q))"
    if "m \<in> set [''how'', ''what'', ''why'', ''when'', ''where'']" for m
    using no_informational_match [OF assms, of m] that
    by (auto simp: INFORMATIONAL_MODIFIERS_def)
  then show ?thesis
    unfolding starts_with_interrogative_def
    using interrogative_found [of "py_strip (py_lower q)"]
    by auto
qed

lemma round_heuristic_confidence:
  "py_round 2 (fl (6 / 10)) = fl (6 / 10)"
  "py_round 2 (fl (5 / 10)) = fl (5 / 10)"
  "py_round 2 (fl (4 / 10)) = fl (4 / 10)"
  by code_simp+

lemma total_positive:
  assumes "\<not> list_all (\<lambda>(intent, score). score = 0) (scores :: ('a \<times> nat) list)"
  shows "0 < sum_list (map snd scores)"
  using assms by (induction scores) auto

lemma analyze_query_eval:
  assumes "py_strip (py_lower q) = ql"
    and "map (score_item ql) intents = scores"
  shows "intent_scores (analyze_query q) = scores"
  using assms by (simp add: analyze_query_scores)

lemma max_score_Max:
  "py_max_by id (snd (score_item (py_strip (py_lower q)) first_intent))
     (map (\<lambda>i. snd (score_item (py_strip (py_lower q)) i)) other_intents) =
   Max (snd ` set (intent_scores (analyze_query q)))"
  unfolding py_max_by_id_Max analyze_query_scores intents_def
  by (simp add: image_image)

lemma analyze_query_confidence_eval:
  assumes "intent_scores (analyze_query q) = scores"
    and "\<not> list_all (\<lambda>(intent, score). score = 0) scores"
  shows "confidence (analyze_query q) =
           py_round 2 (fdiv (of_nat (Max (snd ` set scores))) (of_nat (sum_list (map snd scores))))"
proof -
  have nz: "\<not> list_all (\<lambda>(intent, score). score = 0) (intent_scores (analyze_query q))"
    using assms by simp
  show ?thesis
    using analyze_query_matched(2) [OF nz] total_positive [OF nz]
    unfolding max_score_Max assms(1) by simp
qed

lemma score_item_match_count:
  "score_item (py_strip (py_lower q)) = (\<lambda>intent. (intent, match_count intent q))"
  by (rule ext) (simp add: score_item_def matches_def match_count_def)

lemma analyze_query_counts:
  "intent_scores (analyze_query q) = map (\<lambda>intent. (intent, match_count intent q)) intents"
  unfolding analyze_query_scores score_item_match_count ..

lemma some_count_matched:
  assumes "\<exists>intent \<in> set intents. 0 < match_count intent q"
  shows "\<not> list_all (\<lambda>(intent, score). score = 0) (intent_scores (analyze_query q))"
  using assms unfolding analyze_query_counts by (auto simp: list_all_iff)

lemma match_count_eval:
  assumes "py_strip (py_lower q) = ql"
    and "map (\<lambda>intent. length (filter (\<lambda>m. pattern_search m ql) (modifiers intent))) intents = counts"
  shows "map (\<lambda>intent. match_count intent q) intents = counts"
  using assms by (simp add: match_count_def)

text \<open>
  Claim C5: the count of an intent is the number of its modifiers found in the lowered,
  stripped query (\<open>match_count\<close>), and these are the scores \<open>analyze_query\<close> returns. When
  some intent has a nonzero count, the primary intent is an intent whose count is the
  greatest, and every intent listed before it (the list is informational, navigational,
  commercial investigation, transactional) has a strictly smaller count: among the
  intents sharing the greatest count the first one is chosen.
\<close>

theorem primary_intent_first_maximum:
  assumes "\<exists>intent \<in> set intents. 0 < match_count intent q"
  shows "intents = [INFORMATIONAL, NAVIGATIONAL, COMMERCIAL, TRANSACTIONAL] \<and>
         intent_scores (analyze_query q) =
           map (\<lambda>intent. (intent, match_count intent q)) intents \<and>
         (\<exists>pre post.
            intents = pre @ [primary_intent (analyze_query q)] @ post \<and>
            (\<forall>intent \<in> set pre.
               match_count intent q < match_count (primary_intent (analyze_query q)) q) \<and>
            (\<forall>intent \<in> set post.
               match_count intent q \<le> match_count (primary_intent (analyze_query q)) q))"
proof -
  define f where "f = (\<lambda>intent. (intent, match_count intent q))"
  define best where "best = py_max_by snd (f first_intent) (map f other_intents)"
  have f: "score_item (py_strip (py_lower q)) = f"
    unfolding f_def by (rule score_item_match_count)
  have nz: "\<not> list_all (\<lambda>(intent, score). score = 0) (intent_scores (analyze_query q))"
    by (rule some_count_matched [OF assms])
  from py_max_by_first_max [of "f first_intent" "map f other_intents" snd]
  obtain pre post where
    split: "f first_intent # map f other_intents = pre @ [best] @ post"
    and pre: "\<forall>z \<in> set pre. snd z < snd best"
    and post: "\<forall>z \<in> set post. snd z \<le> snd best"
    unfolding best_def by blast
  have prim: "primary_intent (analyze_query q) = fst best"
    using analyze_query_matched(1) [OF nz] unfolding f best_def .
  have all: "map f intents = pre @ [best] @ post"
    using split by (simp add: intents_def)
  have mem: "snd z = match_count (fst z) q" if "z \<in> set (map f intents)" for z
    using that by (auto simp: f_def)
  have "map fst (map f intents) = intents"
    by (simp add: f_def comp_def)
  then have parts: "intents = map fst pre @ [fst best] @ map fst post"
    unfolding all by simp
  have best: "snd best = match_count (fst best) q"
    by (rule mem) (simp add: all)
  have before: "match_count intent q < match_count (fst best) q"
    if "intent \<in> set (map fst pre)" for intent
  proof -
    from that obtain z where z: "z \<in> set pre" "intent = fst z" by auto
    then have "z \<in> set (map f intents)" unfolding all by simp
    moreover from pre z have "snd z < snd best" by blast
    ultimately show ?thesis using mem [of z] best z by simp
  qed
  have behind: "match_count intent q \<le> match_count (fst best) q"
    if "intent \<in> set (map fst post)" for intent
  proof -
    from that obtain z where z: "z \<in> set post" "intent = fst z" by auto
    then have "z \<in> set (map f intents)" unfolding all by simp
    moreover from post z have "snd z \<le> snd best" by blast
    ultimately show ?thesis using mem [of z] best z by simp
  qed
  have "\<exists>pre post.
          intents = pre @ [primary_intent (analyze_query q)] @ post \<and>
          (\<forall>intent \<in> set pre.
             match_count intent q < match_count (primary_intent (analyze_query q)) q) \<and>
          (\<forall>intent \<in> set post.
             match_count intent q \<le> match_count (primary_intent (analyze_query q)) q)"
    unfolding prim
    using parts before behind by blast
  moreover have "intents = [INFORMATIONAL, NAVIGATIONAL, COMMERCIAL, TRANSACTIONAL]"
    by (simp add: intents_def first_intent_def other_intents_def)
  ultimately show ?thesis
    using analyze_query_counts [of q] by blast
qed

theorem primary_intent_first_maximum_witness:
  "(\<exists>intent \<in> set intents. 0 < match_count intent ''compare cost'') \<and>
   map (\<lambda>intent. match_count intent ''compare cost'') intents = [0, 0, 1, 1] \<and>
   primary_intent (analyze_query ''compare cost'') = COMMERCIAL \<and>
   intent_scores (analyze_query ''compare cost'') =
     map (\<lambda>intent. (intent, match_count intent ''compare cost'')) intents \<and>
   (\<exists>pre post.
      intents = pre @ [primary_intent (analyze_query ''compare cost'')] @ post \<and>
      (\<forall>intent \<in> set pre.
         match_count intent ''compare cost''
           < match_count (primary_intent (analyze_query ''compare cost'')) ''compare cost'') \<and>
      (\<forall>intent \<in> set post.
         match_count intent ''compare cost''
           \<le> match_count (primary_intent (analyze_query ''compare cost'')) ''compare cost''))"
proof -
  have ql: "py_strip (py_lower ''compare cost'') = ''compare cost''"
    by (simp add: intent_eval char_tables)
  have "map (\<lambda>intent. length (filter (\<lambda>m. pattern_search m ''compare cost'') (modifiers intent)))
          intents = [0, 0, 1, 1]"
    by (simp add: intent_eval char_tables)
  note counts = match_count_eval [OF ql this]
  have h: "\<exists>intent \<in> set intents. 0 < match_count intent ''compare cost''"
    using counts by (auto simp: intents_def first_intent_def other_intents_def)
  have scores: "map (score_item (py_strip (py_lower ''compare cost''))) (first_intent # other_intents) =
      [(INFORMATIONAL, 0), (NAVIGATIONAL, 0), (COMMERCIAL, 1), (TRANSACTIONAL, 1)]"
    using counts unfolding score_item_match_count
    by (simp add: intents_def first_intent_def other_intents_def)
  have "primary_intent (analyze_query ''compare cost'') = COMMERCIAL"
    using analyze_query_matched(1) [OF some_count_matched [OF h]] scores
    by simp
  with primary_intent_first_maximum [OF h] h counts show ?thesis by blast
qed

text \<open>
  Claim C7, as stated: the confidence returned equals the greatest count divided by
  the sum of the counts. \<open>analyze_query\<close> returns \<open>round(confidence, 2)\<close>: for the query
  "vs buy" the counts are 1, 0, 1, 1 and the result is 0.33, which is neither the
  fraction 1/3 nor the float quotient \<open>1 / 3\<close>.
\<close>

theorem confidence_rounded_counterexample:
  "intent_scores (analyze_query ''vs buy'') =
     [(INFORMATIONAL, 1), (NAVIGATIONAL, 0), (COMMERCIAL, 1), (TRANSACTIONAL, 1)] \<and>
   confidence (analyze_query ''vs buy'') = fl (33 / 100) \<and>
   fl (33 / 100) \<noteq> 1 / 3 \<and> fl (33 / 100) \<noteq> fdiv 1 3"
proof -
  have ql: "py_strip (py_lower ''vs buy'') = ''vs buy''"
    by (simp add: intent_eval char_tables)
  have scores: "map (score_item ''vs buy'') intents =
      [(INFORMATIONAL, 1), (NAVIGATIONAL, 0), (COMMERCIAL, 1), (TRANSACTIONAL, 1)]"
    by (simp add: intent_eval char_tables)
  note v = analyze_query_eval [OF ql scores]
  have "confidence (analyze_query ''vs buy'') =
          py_round 2 (fdiv (of_nat (Max (snd ` set
            [(INFORMATIONAL, 1), (NAVIGATIONAL, 0), (COMMERCIAL, 1), (TRANSACTIONAL, 1::nat)])))
            (of_nat (sum_list (map snd
            [(INFORMATIONAL, 1), (NAVIGATIONAL, 0), (COMMERCIAL, 1), (TRANSACTIONAL, 1::nat)]))))"
    by (rule analyze_query_confidence_eval [OF v]) simp
  then have "confidence (analyze_query ''vs buy'') = py_round 2 (fdiv 1 3)"
    by simp
  moreover have "py_round 2 (fdiv 1 3) = fl (33 / 100)" by code_simp
  moreover have "fl (33 / 100) \<noteq> 1 / 3" by code_simp
  moreover have "fl (33 / 100) \<noteq> fdiv 1 3" by code_simp
  ultimately show ?thesis using v by simp
qed

text \<open>
  Claim C7, amended: when some intent has a nonzero count, the confidence returned is
  the greatest of the four counts of the query divided by their sum, the division
  carried out in floating point, and then rounded to two decimals by
  \<open>round(confidence, 2)\<close>.
\<close>

theorem confidence_rounded_quotient:
  assumes "\<exists>intent \<in> set intents. 0 < match_count intent q"
  shows "confidence (analyze_query q) =
           py_round 2
             (fdiv (of_nat (Max ((\<lambda>intent. match_count intent q) ` set intents)))
                   (of_nat (sum_list (map (\<lambda>intent. match_count intent q) intents))))"
proof -
  have nz: "\<not> list_all (\<lambda>(intent, score). score = 0) (intent_scores (analyze_query q))"
    by (rule some_count_matched [OF assms])
  have "0 < sum_list (map snd (intent_scores (analyze_query q)))"
    by (rule total_positive [OF nz])
  then have "confidence (analyze_query q) =
           py_round 2 (fdiv (of_nat (Max (snd ` set (intent_scores (analyze_query q)))))
                            (of_nat (sum_list (map snd (intent_scores (analyze_query q))))))"
    using analyze_query_matched(2) [OF nz] unfolding max_score_Max by simp
  then show ?thesis
    unfolding analyze_query_counts by (simp add: image_image comp_def)
qed

theorem confidence_rounded_quotient_witness:
  "(\<exists>intent \<in> set intents. 0 < match_count intent ''top buy'') \<and>
   map (\<lambda>intent. match_count intent ''top buy'') intents = [0, 0, 1, 1] \<and>
   confidence (analyze_query ''top buy'') = py_round 2 (fdiv 1 2) \<and>
   confidence (analyze_query ''top buy'') = 1 / 2"
proof -
  have ql: "py_strip (py_lower ''top buy'') = ''top buy''"
    by (simp add: intent_eval char_tables)
  have "map (\<lambda>intent. length (filter (\<lambda>m. pattern_search m ''top buy'') (modifiers intent)))
          intents = [0, 0, 1, 1]"
    by (simp add: intent_eval char_tables)
  note counts = match_count_eval [OF ql this]
  have h: "\<exists>intent \<in> set intents. 0 < match_count intent ''top buy''"
    using counts by (auto simp: intents_def first_intent_def other_intents_def)
  have img: "(\<lambda>intent. match_count intent ''top buy'') ` set intents = set [0, 0, 1, 1]"
    unfolding counts [symmetric] by simp
  have "confidence (analyze_query ''top buy'') = py_round 2 (fdiv 1 2)"
    using confidence_rounded_quotient [OF h] unfolding img counts by simp
  moreover have "py_round 2 (fdiv 1 2) = 1 / 2" by code_simp
  ultimately show ?thesis using h counts by simp
qed

text \<open>
  Claim C10: for a query with no modifier match at all, the lowered and stripped query
  does not start with an interrogative word followed by a space, so the first branch of
  \<open>_apply_heuristics\<close> (confidence 0.8) is not taken, and the confidence returned is 0.6,
  0.5 or 0.4.
\<close>

theorem fallback_never_interrogative:
  assumes "list_all (\<lambda>(intent, score). score = 0) (intent_scores (analyze_query q))"
  shows "\<not> starts_with_interrogative (py_strip (py_lower q)) \<and>
         (confidence (analyze_query q) = fl (6 / 10) \<or>
          confidence (analyze_query q) = fl (5 / 10) \<or>
          confidence (analyze_query q) = fl (4 / 10))"
proof -
  note ni = unmatched_not_interrogative [OF assms]
  have "snd (apply_heuristics (py_strip (py_lower q))) \<in> {fl (6 / 10), fl (5 / 10), fl (4 / 10)}"
    using ni by (simp add: apply_heuristics_def)
  then show ?thesis
    using ni analyze_query_unmatched(2) [OF assms] round_heuristic_confidence
    by auto
qed

theorem fallback_never_interrogative_witness:
  "list_all (\<lambda>(intent, score). score = 0) (intent_scores (analyze_query ''somehow'')) \<and>
   primary_intent (analyze_query ''somehow'') = INFORMATIONAL \<and>
   \<not> starts_with_interrogative (py_strip (py_lower ''somehow'')) \<and>
   (confidence (analyze_query ''somehow'') = fl (6 / 10) \<or>
    confidence (analyze_query ''somehow'') = fl (5 / 10) \<or>
    confidence (analyze_query ''somehow'') = fl (4 / 10))"
proof -
  have ql: "py_strip (py_lower ''somehow'') = ''somehow''"
    by (simp add: intent_eval char_tables)
  have scores: "map (score_item ''somehow'') intents =
      [(INFORMATIONAL, 0), (NAVIGATIONAL, 0), (COMMERCIAL, 0), (TRANSACTIONAL, 0)]"
    by (simp add: intent_eval char_tables)
  note v = analyze_query_eval [OF ql scores]
  have h: "list_all (\<lambda>(intent, score). score = 0) (intent_scores (analyze_query ''somehow''))"
    unfolding v by simp
  have "apply_heuristics ''somehow'' = (INFORMATIONAL, fl (4 / 10))"
    by (simp add: intent_eval char_tables)
  then have p: "primary_intent (analyze_query ''somehow'') = INFORMATIONAL"
    using analyze_query_unmatched(1) [OF h] unfolding ql by simp
  from fallback_never_interrogative [OF h] h p show ?thesis by blast
qed

text \<open>
  Claim C2: the core engines return a neutral result on empty input instead of raising;
  in particular \<open>get_intent_distribution\<close> on the empty query sequence returns a
  distribution. The source divides each count by \<open>len(queries)\<close> without a guard, so on
  the empty sequence the call raises ZeroDivisionError.
\<close>

theorem get_intent_distribution_empty_raises:
  "get_intent_distribution [] = Inl ZeroDivisionError"
  by (simp add: get_intent_distribution_def)

section \<open>Properties of the float model\<close>

lemma floor_log2_bounds:
  "0 < n \<Longrightarrow> 2 ^ floor_log2 n \<le> n \<and> n < 2 ^ Suc (floor_log2 n)"
proof (induction n rule: floor_log2.induct)
  case (1 n)
  show ?case
  proof (cases "n < 2")
    case True
    with "1.prems" have "n = 1" by simp
    then show ?thesis by simp
  next
    case False
    then have pos: "0 < n div 2" by simp
    from "1.IH" [OF False pos]
    have lo: "2 ^ floor_log2 (n div 2) \<le> n div 2"
      and hi: "n div 2 < 2 ^ Suc (floor_log2 (n div 2))" by simp_all
    have step: "floor_log2 n = Suc (floor_log2 (n div 2))"
      using False by (subst floor_log2.simps) simp
    from lo have "2 * 2 ^ floor_log2 (n div 2) \<le> n" by linarith
    moreover from hi have "n < 2 * 2 ^ Suc (floor_log2 (n div 2))" by linarith
    ultimately show ?thesis unfolding step by simp
  qed
qed

lemma pow2_pos: "0 < pow2 e"
  by (simp add: pow2_def)

lemma pow2_nat: "pow2 (int k) = 2 ^ k"
  by (simp add: pow2_def)

lemma pow2_neg_nat: "pow2 (- int k) = 1 / 2 ^ k"
  by (cases "k = 0") (simp_all add: pow2_def)

lemma pow2_add: "pow2 (a + b) = pow2 a * pow2 b"
proof -
  have "pow2 e = 2 powi e" for e
    by (simp add: pow2_def power_int_def nat_minus_as_int field_simps)
  then show ?thesis by (simp add: power_int_add)
qed

lemma pow2_mono: "a \<le> b \<Longrightarrow> pow2 a \<le> pow2 b"
proof -
  assume "a \<le> b"
  then obtain k where b: "b = a + int k" by (metis zle_iff_zadd)
  have "pow2 a * 1 \<le> pow2 a * 2 ^ k"
    by (rule mult_left_mono) (simp_all add: pow2_pos less_imp_le)
  then show ?thesis unfolding b pow2_add pow2_nat by simp
qed

lemma binade_bounds:
  assumes "0 < x"
  shows "pow2 (binade x) \<le> x" and "x < pow2 (binade x + 1)"
proof -
  have "pow2 (binade x) \<le> x \<and> x < pow2 (binade x + 1)"
  proof (cases "1 \<le> x")
    case True
    let ?n = "nat \<lfloor>x\<rfloor>"
    from True have n: "0 < ?n" by simp
    have fx: "rat_of_nat ?n = of_int \<lfloor>x\<rfloor>" using True by simp
    from floor_log2_bounds [OF n]
    have lo: "2 ^ floor_log2 ?n \<le> ?n" and hi: "?n < 2 ^ Suc (floor_log2 ?n)" by simp_all
    from lo have "rat_of_nat (2 ^ floor_log2 ?n) \<le> rat_of_nat ?n" by (simp only: of_nat_le_iff)
    then have "(2::rat) ^ floor_log2 ?n \<le> of_int \<lfloor>x\<rfloor>" unfolding fx by simp
    also have "\<dots> \<le> x" by simp
    finally have l: "pow2 (binade x) \<le> x"
      using True by (simp add: binade_def pow2_nat)
    from hi have "Suc ?n \<le> 2 ^ Suc (floor_log2 ?n)" by simp
    then have "rat_of_nat (Suc ?n) \<le> rat_of_nat (2 ^ Suc (floor_log2 ?n))"
      by (simp only: of_nat_le_iff)
    then have "of_int \<lfloor>x\<rfloor> + 1 \<le> (2::rat) ^ Suc (floor_log2 ?n)"
      using fx by simp
    moreover have "x < of_int \<lfloor>x\<rfloor> + 1" by linarith
    ultimately have "x < 2 ^ Suc (floor_log2 ?n)" by linarith
    moreover have "binade x + 1 = int (Suc (floor_log2 ?n))"
      using True by (simp add: binade_def)
    ultimately have "x < pow2 (binade x + 1)"
      by (simp only: pow2_nat)
    with l show ?thesis by simp
  next
    case False
    with assms have x1: "x < 1" by simp
    let ?c = "\<lceil>1 / x\<rceil>"
    let ?n = "nat (?c - 1)"
    let ?k = "floor_log2 ?n"
    have inv: "1 < 1 / x" using assms x1 by simp
    then have c2: "2 \<le> ?c" by linarith
    then have n: "0 < ?n" by simp
    from c2 have "0 \<le> ?c - 1" by linarith
    then have "rat_of_nat (nat (?c - 1)) = rat_of_int (?c - 1)" by (rule of_nat_nat)
    then have cn: "rat_of_nat ?n = of_int ?c - 1" by simp
    from floor_log2_bounds [OF n]
    have lo: "2 ^ ?k \<le> ?n" and hi: "?n < 2 ^ Suc ?k" by simp_all
    have e: "binade x = - int (Suc ?k)" using False by (simp add: binade_def)
    from hi have "Suc ?n \<le> 2 ^ Suc ?k" by simp
    then have "rat_of_nat (Suc ?n) \<le> rat_of_nat (2 ^ Suc ?k)" by (simp only: of_nat_le_iff)
    then have "of_int ?c \<le> (2::rat) ^ Suc ?k" using cn by simp
    moreover have "1 / x \<le> of_int ?c" by linarith
    ultimately have "1 / x \<le> 2 ^ Suc ?k" by linarith
    then have "1 \<le> 2 ^ Suc ?k * x" using assms by (simp add: field_simps)
    then have l: "1 / 2 ^ Suc ?k \<le> x" by (simp add: field_simps)
    from lo have "rat_of_nat (2 ^ ?k) \<le> rat_of_nat ?n" by (simp only: of_nat_le_iff)
    then have "(2::rat) ^ ?k \<le> of_int ?c - 1" using cn by simp
    moreover have "of_int ?c - 1 < 1 / x" by linarith
    ultimately have "2 ^ ?k < 1 / x" by linarith
    then have "2 ^ ?k * x < 1" using assms by (simp add: field_simps)
    then have u: "x < 1 / 2 ^ ?k" by (simp add: field_simps)
    have "binade x + 1 = - int ?k" using e by simp
    with l u e show ?thesis
      by (simp only: pow2_neg_nat)
  qed
  then show "pow2 (binade x) \<le> x" and "x < pow2 (binade x + 1)" by simp_all
qed

lemma round_half_even_le:
  assumes "x \<le> of_int n"
  shows "round_half_even x \<le> n"
proof -
  have f: "\<lfloor>x\<rfloor> \<le> n" using assms by (simp add: floor_le_iff)
  show ?thesis
  proof (cases "x = of_int \<lfloor>x\<rfloor>")
    case True
    then have "x - of_int \<lfloor>x\<rfloor> = 0" by simp
    then show ?thesis using f by (simp add: round_half_even_def Let_def)
  next
    case False
    moreover have "of_int \<lfloor>x\<rfloor> \<le> x" by (rule of_int_floor_le)
    ultimately have "of_int \<lfloor>x\<rfloor> < x" by linarith
    with assms have "of_int \<lfloor>x\<rfloor> < (of_int n :: rat)" by linarith
    then have "\<lfloor>x\<rfloor> < n" by simp
    then show ?thesis by (simp add: round_half_even_def Let_def)
  qed
qed

lemma round_half_even_nonneg:
  assumes "0 \<le> x"
  shows "0 \<le> round_half_even x"
proof -
  have "0 \<le> \<lfloor>x\<rfloor>" using assms by simp
  then show ?thesis by (simp add: round_half_even_def Let_def)
qed

lemma fl_nonneg:
  assumes "0 \<le> x"
  shows "0 \<le> fl x"
proof (cases "x = 0")
  case True
  then show ?thesis by (simp add: fl_def)
next
  case False
  with assms have pos: "0 < x" by simp
  let ?u = "pow2 (binade \<bar>x\<bar> - 52)"
  have "0 \<le> \<bar>x\<bar> / ?u" using pow2_pos [of "binade \<bar>x\<bar> - 52"] by simp
  then have "0 \<le> round_half_even (\<bar>x\<bar> / ?u)" by (rule round_half_even_nonneg)
  then have "0 \<le> rat_of_int (round_half_even (\<bar>x\<bar> / ?u)) * ?u"
    using pow2_pos [of "binade \<bar>x\<bar> - 52"] by simp
  then show ?thesis using pos by (simp add: fl_def Let_def)
qed

lemma fl_le_100:
  assumes "x \<le> 100"
  shows "fl x \<le> 100"
proof (cases "0 < x")
  case False
  then have "x = 0 \<or> x < 0" by linarith
  then show ?thesis
  proof
    assume "x = 0"
    then show ?thesis by (simp add: fl_def)
  next
    assume neg: "x < 0"
    let ?u = "pow2 (binade \<bar>x\<bar> - 52)"
    have "0 \<le> \<bar>x\<bar> / ?u" using pow2_pos [of "binade \<bar>x\<bar> - 52"] by simp
    then have "0 \<le> round_half_even (\<bar>x\<bar> / ?u)" by (rule round_half_even_nonneg)
    then have "0 \<le> rat_of_int (round_half_even (\<bar>x\<bar> / ?u)) * ?u"
      using pow2_pos [of "binade \<bar>x\<bar> - 52"] by simp
    then show ?thesis using neg by (simp add: fl_def Let_def)
  qed
next
  case True
  let ?e = "binade x"
  let ?u = "pow2 (?e - 52)"
  have upos: "0 < ?u" by (rule pow2_pos)
  have e52: "?e \<le> 52"
  proof (rule ccontr)
    assume "\<not> ?e \<le> 52"
    then have "53 \<le> ?e" by simp
    then have "pow2 53 \<le> pow2 ?e" by (rule pow2_mono)
    also have "\<dots> \<le> x" by (rule binade_bounds(1) [OF True])
    finally have "pow2 53 \<le> 100" using assms by simp
    then show False by (simp add: pow2_def)
  qed
  let ?k = "100 * 2 ^ nat (52 - ?e) :: int"
  have "pow2 (?e - 52) * pow2 (int (nat (52 - ?e))) = pow2 0"
    using e52 by (simp only: pow2_add [symmetric]) simp
  then have inv: "?u * 2 ^ nat (52 - ?e) = 1"
    by (simp only: pow2_nat) (simp add: pow2_def)
  have "x / ?u = x * 2 ^ nat (52 - ?e)"
    using inv upos by (simp add: field_simps)
  also have "\<dots> \<le> 100 * 2 ^ nat (52 - ?e)"
    using assms by simp
  also have "\<dots> = rat_of_int ?k" by simp
  finally have "round_half_even (x / ?u) \<le> ?k" by (rule round_half_even_le)
  then have "rat_of_int (round_half_even (x / ?u)) \<le> rat_of_int ?k" by (simp only: of_int_le_iff)
  then have "rat_of_int (round_half_even (x / ?u)) * ?u \<le> rat_of_int ?k * ?u"
    using upos by (simp only: mult_le_cancel_right_pos)
  also have "rat_of_int ?k * ?u = 100 * (?u * 2 ^ nat (52 - ?e))" by simp
  also have "\<dots> = 100" unfolding inv by simp
  finally show ?thesis using True by (simp add: fl_def Let_def)
qed

lemma py_round_1_bounds:
  assumes "0 \<le> x" and "x \<le> 100"
  shows "0 \<le> py_round 1 x" and "py_round 1 x \<le> 100"
proof -
  have "0 \<le> x * 10" using assms(1) by simp
  then have lo: "0 \<le> round_half_even (x * 10)" by (rule round_half_even_nonneg)
  have "x * 10 \<le> rat_of_int 1000" using assms(2) by simp
  then have hi: "round_half_even (x * 10) \<le> 1000" by (rule round_half_even_le)
  from lo have "0 \<le> rat_of_int (round_half_even (x * 10)) / 10" by simp
  then show "0 \<le> py_round 1 x" unfolding py_round_def by (simp add: fl_nonneg)
  from hi have "rat_of_int (round_half_even (x * 10)) \<le> rat_of_int 1000" by (simp only: of_int_le_iff)
  then have "rat_of_int (round_half_even (x * 10)) \<le> 1000" by simp
  then have "rat_of_int (round_half_even (x * 10)) / 10 \<le> 100" by simp
  then show "py_round 1 x \<le> 100" unfolding py_round_def by (simp add: fl_le_100)
qed

section \<open>Properties of the content quality checker\<close>

lemmas quality_eval =
  split_words_def split_sentences_def sentence_end_def count_syllables_def py_split_on_def
  newline_def list_marker_here_def heading_mark_def has_heading_def heading_line_len_def
  newline_heading_len_def count_headings_def number_len_def citation_len_def target_len_def
  link_len_def url_len_def count_present_def md_get_def py_lower_def py_strip_def
  EXPERIENCE_INDICATORS_def EXPERTISE_INDICATORS_def TRUST_INDICATORS_def

subsection \<open>A content whose overall score rounds up to a grade threshold\<close>

definition threshold_content :: string where
  "threshold_content =
     ''# .org. like .edu .gov 5 summary i tried 3 i found faq. https:// i used try'' @
     [CHR 0x0A] @ ''- x''"

definition threshold_metadata :: metadata where
  "threshold_metadata = [''title'' \<mapsto> ''t'', ''meta_description'' \<mapsto> ''d'']"

lemma threshold_lower: "py_lower threshold_content = threshold_content"
  by (simp add: threshold_content_def py_lower_def char_tables)

lemma threshold_words:
  "split_words threshold_content =
     [''org'', ''like'', ''edu'', ''gov'', ''summary'', ''i'', ''tried'', ''i'', ''found'',
      ''faq'', ''https'', ''i'', ''used'', ''try'', ''x'']"
  by (simp add: threshold_content_def quality_eval char_tables)

lemma threshold_sentences:
  "split_sentences threshold_content =
     [''#'', ''org'', ''like'', ''edu'', ''gov 5 summary i tried 3 i found faq'',
      ''https:// i used try'' @ [CHR 0x0A] @ ''- x'']"
  by (simp add: threshold_content_def quality_eval char_tables)

lemma threshold_syllables:
  "sum_list (map count_syllables
     [''org'', ''like'', ''edu'', ''gov'', ''summary'', ''i'', ''tried'', ''i'', ''found'',
      ''faq'', ''https'', ''i'', ''used'', ''try'', ''x'']) = 19"
  by (simp add: quality_eval char_tables)

lemma threshold_paragraphs:
  "py_split_on threshold_content [newline, newline] = [threshold_content]"
  by (simp add: threshold_content_def quality_eval char_tables)

lemma threshold_marks:
  "has_list_marker threshold_content = True" "has_heading threshold_content = True"
  "count_headings threshold_content = 1"
  by (simp_all add: threshold_content_def quality_eval char_tables)

lemma threshold_long_sentences:
  "filter (\<lambda>s. 25 < length (py_split s))
     [''#'', ''org'', ''like'', ''edu'', ''gov 5 summary i tried 3 i found faq'',
      ''https:// i used try'' @ [CHR 0x0A] @ ''- x''] = []"
  by (simp add: char_tables)

lemma threshold_readability:
  "calculate_readability threshold_content = 6212328657864623 / 70368744177664"
  unfolding calculate_readability_def Let_def threshold_words threshold_sentences
    threshold_syllables threshold_paragraphs threshold_marks threshold_long_sentences
  by code_simp

lemma threshold_eeat: "calculate_eeat_score threshold_content = 38"
  unfolding calculate_eeat_score_def threshold_lower Let_def
  by (simp add: threshold_content_def quality_eval char_tables)

lemma threshold_seo: "calculate_seo_score threshold_content threshold_metadata = 50"
  by (simp add: calculate_seo_score_def seo_points_def threshold_metadata_def md_get_def py_lower_def)

lemma threshold_completeness:
  "calculate_completeness threshold_content threshold_metadata = 70"
  unfolding calculate_completeness_def threshold_lower threshold_marks Let_def
  by (simp add: threshold_content_def threshold_metadata_def quality_eval char_tables)

lemma threshold_overall:
  "weighted_overall (6212328657864623 / 70368744177664) 38 50 70 =
     8440115137599243 / 140737488355328"
  "py_round 1 (8440115137599243 / 140737488355328) = 60"
  "get_grade (8440115137599243 / 140737488355328) = ''F''"
  by code_simp+

subsection \<open>Overall score and grade\<close>

text \<open>
  Claim C4, as stated: the overall score returned is the weighted sum rounded to one
  decimal, and the grade follows the thresholds 90, 80, 70 and 60 on the overall score.
  \<open>check_content\<close> takes the grade from the weighted sum before it is rounded, and
  returns the rounded sum: for the content and metadata below the weighted sum is
  59.970625, the overall score returned is 60.0 and the grade is F, where a score of 60
  is a D.
\<close>

theorem grade_of_rounded_overall_counterexample:
  "overall_score (check_content threshold_content (Some threshold_metadata)) = 60 \<and>
   grade (check_content threshold_content (Some threshold_metadata)) = ''F'' \<and>
   get_grade (overall_score (check_content threshold_content (Some threshold_metadata))) = ''D''"
proof -
  have "overall_score (check_content threshold_content (Some threshold_metadata)) = 60"
    unfolding check_content_def Let_def option.case threshold_readability threshold_eeat
      threshold_seo threshold_completeness threshold_overall
    by simp
  moreover have "grade (check_content threshold_content (Some threshold_metadata)) = ''F''"
    unfolding check_content_def Let_def option.case threshold_readability threshold_eeat
      threshold_seo threshold_completeness threshold_overall
    by simp
  moreover have "get_grade 60 = ''D''"
    by (simp add: get_grade_def)
  ultimately show ?thesis by simp
qed

text \<open>
  Claim C4, amended: for every content string and metadata mapping, the overall score
  returned by \<open>check_content\<close> is the weighted sum
  0.25 readability + 0.30 eeat + 0.25 seo + 0.20 completeness of the sub-scores as
  computed (before they are rounded), evaluated in floating point and rounded to one
  decimal; the grade is A if that weighted sum, before rounding, is at least 90, B if at
  least 80, C if at least 70, D if at least 60, and F otherwise.
\<close>

theorem overall_score_and_grade:
  "(let md = (case metadata_arg of None \<Rightarrow> Map.empty | Some m \<Rightarrow> m);
        weighted = weighted_overall (calculate_readability content)
                     (calculate_eeat_score content) (calculate_seo_score content md)
                     (calculate_completeness content md)
    in overall_score (check_content content metadata_arg) = py_round 1 weighted \<and>
       grade (check_content content metadata_arg) =
         (if 90 \<le> weighted then ''A''
          else if 80 \<le> weighted then ''B''
          else if 70 \<le> weighted then ''C''
          else if 60 \<le> weighted then ''D''
          else ''F''))"
  unfolding check_content_def Let_def get_grade_def by simp

subsection \<open>The neutral SEO score\<close>

lemma round_50: "py_round 1 (of_nat 50) = 50"
  by code_simp

lemma seo_without_keyword:
  assumes "md ''target_keyword'' = None \<or> md ''target_keyword'' = Some []"
  shows "calculate_seo_score content md = 50"
proof -
  from assms have "md_get md ''target_keyword'' = []"
    by (auto simp: md_get_def)
  then show ?thesis
    by (simp add: calculate_seo_score_def seo_points_def Let_def py_lower_def)
qed

lemma check_content_seo_without_keyword:
  assumes "md ''target_keyword'' = None \<or> md ''target_keyword'' = Some []"
  shows "seo_score (check_content content (Some md)) = 50"
    and "seo_score (check_content content None) = 50"
proof -
  have e: "calculate_seo_score content Map.empty = 50"
    by (rule seo_without_keyword [where md = Map.empty]) simp
  have k: "calculate_seo_score content md = 50"
    by (rule seo_without_keyword [where md = md, OF assms])
  show "seo_score (check_content content (Some md)) = 50"
    unfolding check_content_def Let_def option.case k round_50 by simp
  show "seo_score (check_content content None) = 50"
    unfolding check_content_def Let_def option.case e round_50 by simp
qed

lemma get_lower_as_strings:
  "get_lower (as_strings md) key = Inr (py_lower (md_get md key))"
  by (simp add: get_lower_def as_strings_def md_get_def py_lower_def split: option.splits)

lemma calculate_seo_score_json_strings:
  "calculate_seo_score_json content (as_strings md) = Inr (calculate_seo_score content md)"
  unfolding calculate_seo_score_json_def calculate_seo_score_def Let_def get_lower_as_strings
  by simp

lemma get_lower_string_valued:
  "get_lower md key = (if string_valued md key then Inr (py_lower (case md key of Some (PyStr s) \<Rightarrow> s | _ \<Rightarrow> []))
                       else Inl AttributeError)"
  by (simp add: get_lower_def string_valued_def py_lower_def split: option.splits py_value.splits)

text \<open>
  Claim C3, as stated: with \<open>target_keyword\<close> absent or empty the SEO sub-score is 50 for
  every metadata mapping, whatever the other keys hold. \<open>calculate_seo_score\<close> lowers the
  values of \<open>title\<close> and \<open>meta_description\<close> before it tests the keyword: with the metadata
  \<open>{"title": null}\<close>, which has no target keyword, the call raises AttributeError and no
  score is returned.
\<close>

theorem seo_null_title_counterexample:
  "[''title'' \<mapsto> PyNone] ''target_keyword'' = None \<and>
   calculate_seo_score_json ''# Coffee guide'' [''title'' \<mapsto> PyNone] = Inl AttributeError \<and>
   calculate_seo_score_json ''# Coffee guide'' [''title'' \<mapsto> PyNone] \<noteq> Inr 50"
  by (simp add: calculate_seo_score_json_def get_lower_def)

text \<open>
  Claim C3, amended: when the metadata has no target keyword, or the empty string as
  target keyword, and \<open>title\<close> and \<open>meta_description\<close> are each absent or a string,
  \<open>calculate_seo_score\<close> returns exactly 50, whatever the content, the values of \<open>title\<close>
  and \<open>meta_description\<close> and all other metadata keys are; when \<open>title\<close> or
  \<open>meta_description\<close> holds a value that is not a string, the call raises AttributeError.
\<close>

theorem seo_neutral_without_keyword:
  assumes "md ''target_keyword'' = None \<or> md ''target_keyword'' = Some (PyStr [])"
  shows "calculate_seo_score_json content md =
           (if string_valued md ''title'' \<and> string_valued md ''meta_description''
            then Inr 50 else Inl AttributeError)"
proof -
  from assms have k: "get_lower md ''target_keyword'' = Inr []"
    by (auto simp: get_lower_def py_lower_def)
  show ?thesis
    unfolding calculate_seo_score_json_def k
    by (simp add: get_lower_string_valued seo_points_def)
qed

theorem seo_neutral_without_keyword_witness:
  "[''title'' \<mapsto> PyStr ''Coffee'', ''target_keyword'' \<mapsto> PyStr [], ''author'' \<mapsto> PyNone]
     ''target_keyword'' = Some (PyStr []) \<and>
   string_valued
     [''title'' \<mapsto> PyStr ''Coffee'', ''target_keyword'' \<mapsto> PyStr [], ''author'' \<mapsto> PyNone]
     ''title'' \<and>
   string_valued
     [''title'' \<mapsto> PyStr ''Coffee'', ''target_keyword'' \<mapsto> PyStr [], ''author'' \<mapsto> PyNone]
     ''meta_description'' \<and>
   calculate_seo_score_json ''# Coffee guide''
     [''title'' \<mapsto> PyStr ''Coffee'', ''target_keyword'' \<mapsto> PyStr [], ''author'' \<mapsto> PyNone] =
     Inr 50"
proof -
  have h: "[''title'' \<mapsto> PyStr ''Coffee'', ''target_keyword'' \<mapsto> PyStr [], ''author'' \<mapsto> PyNone]
             ''target_keyword'' = None \<or>
           [''title'' \<mapsto> PyStr ''Coffee'', ''target_keyword'' \<mapsto> PyStr [], ''author'' \<mapsto> PyNone]
             ''target_keyword'' = Some (PyStr [])"
    by simp
  from seo_neutral_without_keyword
         [where md = "[''title'' \<mapsto> PyStr ''Coffee'', ''target_keyword'' \<mapsto> PyStr [],
                       ''author'' \<mapsto> PyNone]"
            and content = "''# Coffee guide''", OF h]
  show ?thesis by (simp add: string_valued_def)
qed

subsection \<open>The range of the sub-scores\<close>

lemma clamp_100_bounds: "0 \<le> clamp_100 x" "clamp_100 x \<le> 100"
  by (simp_all add: clamp_100_def)

lemma calculate_readability_bounds:
  "0 \<le> calculate_readability content" "calculate_readability content \<le> 100"
proof -
  have "0 \<le> (if b then 0 else clamp_100 x) \<and> (if b then 0 else clamp_100 x) \<le> 100" for b x
    by (simp add: clamp_100_bounds)
  then show "0 \<le> calculate_readability content" "calculate_readability content \<le> 100"
    unfolding calculate_readability_def Let_def by blast+
qed

lemma calculate_eeat_score_le: "calculate_eeat_score content \<le> 100"
  unfolding calculate_eeat_score_def Let_def by (rule min.cobounded1)

lemma calculate_seo_score_le: "calculate_seo_score content md \<le> 100"
proof -
  have "(if b then 50 else min 100 x) \<le> (100::nat)" for b x
    by simp
  then show ?thesis
    unfolding calculate_seo_score_def seo_points_def Let_def by blast
qed

lemma calculate_completeness_le: "calculate_completeness content md \<le> 100"
  unfolding calculate_completeness_def Let_def by (rule min.cobounded1)

lemma round_nat_score:
  assumes "n \<le> 100"
  shows "0 \<le> py_round 1 (of_nat n)" "py_round 1 (of_nat n) \<le> 100"
proof -
  have "(0::rat) \<le> of_nat n" by simp
  moreover from assms have "rat_of_nat n \<le> 100" by simp
  ultimately show "0 \<le> py_round 1 (of_nat n)" "py_round 1 (of_nat n) \<le> 100"
    by (rule py_round_1_bounds)+
qed

text \<open>
  Claim C8: for every content string and metadata mapping, each of the four sub-scores
  that \<open>check_content\<close> returns (readability, E-E-A-T, SEO and completeness) lies between 0
  and 100; so do the values computed by the four scoring functions before rounding.
\<close>

theorem sub_scores_in_range:
  "0 \<le> readability_score (check_content content metadata_arg) \<and>
   readability_score (check_content content metadata_arg) \<le> 100 \<and>
   0 \<le> eeat_score (check_content content metadata_arg) \<and>
   eeat_score (check_content content metadata_arg) \<le> 100 \<and>
   0 \<le> seo_score (check_content content metadata_arg) \<and>
   seo_score (check_content content metadata_arg) \<le> 100 \<and>
   0 \<le> completeness_score (check_content content metadata_arg) \<and>
   completeness_score (check_content content metadata_arg) \<le> 100 \<and>
   0 \<le> calculate_readability content \<and> calculate_readability content \<le> 100 \<and>
   calculate_eeat_score content \<le> 100 \<and>
   calculate_seo_score content md \<le> 100 \<and>
   calculate_completeness content md \<le> 100"
proof -
  note r = py_round_1_bounds [OF calculate_readability_bounds]
  note e = round_nat_score [OF calculate_eeat_score_le]
  note s = round_nat_score [OF calculate_seo_score_le]
  note c = round_nat_score [OF calculate_completeness_le]
  show ?thesis
    unfolding check_content_def Let_def QualityScore.select_convs
    by (intro conjI r e s c calculate_readability_bounds calculate_eeat_score_le
        calculate_seo_score_le calculate_completeness_le)
qed

end
